theory Spec2Isabelle
  imports Main "HOL-Library.Sublist"
begin

section \<open>Result plans of call emission (lib/SILGen/ResultPlan.cpp)\<close>

text \<open>
  The file builds, for the results of one call, a tree of plan nodes
  (\<open>ResultPlanBuilder::build\<close>, \<open>buildForTuple\<close>) and later runs the tree
  against the values the call produced (\<open>ResultPlan::finish\<close>).  The builder
  mutates a queue of result descriptors and a list of indirect-result
  addresses; \<open>finish\<close> advances a cursor over the direct results and calls
  into the code generator.  Both are written here with the state passed
  explicitly, and every failed assertion of the source is a returned error.
\<close>

subsection \<open>Types, values and the collaborators of the file\<close>

text \<open>The declared (pre-substitution) shape of a result: \<open>isTuple()\<close> holds of
  \<open>OrigTuple\<close> only.\<close>

datatype AbstractionPattern =
    OrigOpaque nat
  | OrigTuple "AbstractionPattern list"

text \<open>The substituted formal type; \<open>cast<TupleType>\<close> succeeds on \<open>SubstTuple\<close>
  only.\<close>

datatype CanType =
    SubstScalar nat
  | SubstTuple "CanType list"

datatype SILValueCategory = Object | Address

datatype SILType = SILType nat SILValueCategory

fun getAddressType :: "SILType \<Rightarrow> SILType" where
  "getAddressType (SILType n c) = SILType n Address"

fun getObjectType :: "SILType \<Rightarrow> SILType" where
  "getObjectType (SILType n c) = SILType n Object"

text \<open>SSA values: a value that exists outside this file (a direct result of
  the call, the address of a destination, what a conversion returned), the
  buffer of the n-th temporary, and the value loaded out of an address.\<close>

datatype SILValue =
    Value nat SILType
  | AllocStack nat SILType
  | LoadTake SILValue

fun getType :: "SILValue \<Rightarrow> SILType" where
  "getType (Value n t) = t"
| "getType (AllocStack n t) = getAddressType t"
| "getType (LoadTake a) = getObjectType (getType a)"

text \<open>A managed value is a value, or the marker that the value was emitted
  into the context's initialization (\<open>isInContext()\<close>).\<close>

datatype ManagedValue = Managed SILValue | InContext

datatype SILFunctionTypeRepresentation =
    Thick | Block | Thin | CFunctionPointer | Method | ObjCMethod
  | WitnessMethod | Closure

datatype SILFunctionLanguage = Swift | C

text \<open>Modelled from the spec: \<open>getSILFunctionLanguage\<close> is declared outside
  this file; the tag marks a foreign (C-language) representation for blocks,
  C function pointers and Objective-C methods, and a native one otherwise.\<close>

fun getSILFunctionLanguage :: "SILFunctionTypeRepresentation \<Rightarrow> SILFunctionLanguage" where
  "getSILFunctionLanguage Block = C"
| "getSILFunctionLanguage CFunctionPointer = C"
| "getSILFunctionLanguage ObjCMethod = C"
| "getSILFunctionLanguage r = Swift"

text \<open>A result descriptor of the callee's signature: its formal type, whether
  the convention returns it indirectly (\<open>silConv.isSILIndirect\<close>), and its
  storage type (\<open>getSILStorageType\<close>).\<close>

record SILResultInfo =
  resultType :: CanType
  isSILIndirect :: bool
  getSILStorageType :: SILType

text \<open>A temporary buffer made by \<open>emitTemporary\<close>: its allocation number and the
  lowered type it was made for.\<close>

datatype TemporaryInitialization = TemporaryInitialization nat SILType

fun getAddress :: "TemporaryInitialization \<Rightarrow> SILValue" where
  "getAddress (TemporaryInitialization n t) = AllocStack n t"

text \<open>Destinations.  The source holds pointers to \<open>Initialization\<close> objects;
  an object is identified here by where it comes from: handed in by the caller,
  a temporary of this builder, or the i-th sub-initialization that
  \<open>splitIntoTupleElements\<close> made of another one.\<close>

datatype Initialization =
    CallerInit nat
  | TemporaryInit TemporaryInitialization
  | TupleElementInit Initialization nat

text \<open>The services the file calls on \<open>SILGenFunction\<close>, on type lowering and
  on destinations are taken as parameters: any functions may be supplied.\<close>

record SILGenFunction =
  getLoweredType :: "CanType \<Rightarrow> SILType"
  isAddressOnly :: "CanType \<Rightarrow> bool"
  hasAbstractionDifference :: "SILType \<Rightarrow> SILFunctionTypeRepresentation \<Rightarrow> SILType \<Rightarrow> bool"
  addressForInPlace :: "Initialization \<Rightarrow> SILValue option"
  canSplit :: "Initialization \<Rightarrow> bool"
  emitBridgedToNativeValue ::
    "SILValue \<Rightarrow> SILFunctionTypeRepresentation \<Rightarrow> CanType \<Rightarrow> SILValue"
  emitOrigToSubstValue ::
    "SILValue \<Rightarrow> AbstractionPattern \<Rightarrow> CanType \<Rightarrow> Initialization option \<Rightarrow> ManagedValue"
  implodeTuple :: "CanType \<Rightarrow> SILValue list \<Rightarrow> SILValue"

definition getAddressForInPlaceInitialization ::
  "SILGenFunction \<Rightarrow> Initialization \<Rightarrow> SILValue option" where
  "getAddressForInPlaceInitialization SGF init = addressForInPlace SGF init"

text \<open>Modelled from the spec: \<open>Initialization.h\<close> is not part of the sources.
  A temporary is a single buffer, which splits into its element addresses (the
  plan for a destination that cannot split is built \<open>against a single
  whole-tuple temporary\<close>); any other destination answers through the
  parameter.\<close>

fun canSplitIntoTupleElements :: "SILGenFunction \<Rightarrow> Initialization \<Rightarrow> bool" where
  "canSplitIntoTupleElements SGF (TemporaryInit t) = True"
| "canSplitIntoTupleElements SGF init = canSplit SGF init"

text \<open>Modelled from the spec: splitting a destination for an N-element tuple
  gives N sub-destinations, one per element, in element order.\<close>

definition splitIntoTupleElements :: "Initialization \<Rightarrow> CanType list \<Rightarrow> Initialization list" where
  "splitIntoTupleElements init substElts = map (TupleElementInit init) [0..<length substElts]"

subsection \<open>Errors\<close>

text \<open>Each constructor is one way the source aborts: a failed \<open>cast\<close>, reading
  the front of an empty \<open>ArrayRef\<close>, an index out of range, or an \<open>assert\<close>.\<close>

datatype error =
    CastToTupleTypeFailed
  | AllResultsEmpty
  | DirectResultsEmpty
  | TupleElementOutOfRange
  | SubPlanDidNotEmitIntoContext
  | ElementCountMismatch
  | RValueAlreadyUsed
  | ExplodedNonTuple

subsection \<open>The plan nodes\<close>

datatype ResultPlan =
    InPlaceInitializationResultPlan Initialization
  | ScalarResultPlan "TemporaryInitialization option" AbstractionPattern
      "Initialization option" SILFunctionTypeRepresentation
  | InitValueFromTemporaryResultPlan Initialization ResultPlan TemporaryInitialization
  | InitValueFromRValueResultPlan Initialization ResultPlan
  | TupleRValueResultPlan "ResultPlan list"
  | TupleInitializationResultPlan Initialization "Initialization list" "ResultPlan list"

subsection \<open>The builder\<close>

text \<open>The fields of \<open>ResultPlanBuilder\<close> that the file reads and writes, and the
  number of temporaries the function has allocated so far.\<close>

record ResultPlanBuilder =
  allResults :: "SILResultInfo list"
  indirectResultAddrs :: "SILValue list"
  rep :: SILFunctionTypeRepresentation
  nextTemporary :: nat

definition emitTemporary ::
  "ResultPlanBuilder \<Rightarrow> SILType \<Rightarrow> TemporaryInitialization \<times> ResultPlanBuilder" where
  "emitTemporary b ty =
     (TemporaryInitialization (nextTemporary b) ty, b\<lparr>nextTemporary := Suc (nextTemporary b)\<rparr>)"

fun getTupleElementType :: "AbstractionPattern \<Rightarrow> nat \<Rightarrow> error + AbstractionPattern" where
  "getTupleElementType (OrigTuple os) i =
     (if i < length os then Inr (os ! i) else Inl TupleElementOutOfRange)"
| "getTupleElementType (OrigOpaque n) i = Inl TupleElementOutOfRange"

text \<open>The destination of element \<open>i\<close>: \<open>nullptr\<close> in the constructor of
  \<open>TupleRValueResultPlan\<close>, \<open>eltInits[i].get()\<close> in the constructor of
  \<open>TupleInitializationResultPlan\<close>.\<close>

definition eltInitAt :: "Initialization list option \<Rightarrow> nat \<Rightarrow> error + Initialization option" where
  "eltInitAt eltInits i =
     (case eltInits of
        None \<Rightarrow> Inr None
      | Some inits \<Rightarrow>
          if i < length inits then Inr (Some (inits ! i)) else Inl TupleElementOutOfRange)"

function build ::
    "SILGenFunction \<Rightarrow> Initialization option \<Rightarrow> AbstractionPattern \<Rightarrow> CanType \<Rightarrow>
     ResultPlanBuilder \<Rightarrow> error + (ResultPlan \<times> ResultPlanBuilder)"
  and buildForTuple ::
    "SILGenFunction \<Rightarrow> Initialization option \<Rightarrow> AbstractionPattern \<Rightarrow> CanType list \<Rightarrow>
     ResultPlanBuilder \<Rightarrow> error + (ResultPlan \<times> ResultPlanBuilder)"
  and buildElements ::
    "SILGenFunction \<Rightarrow> Initialization list option \<Rightarrow> AbstractionPattern \<Rightarrow> CanType list \<Rightarrow>
     nat \<Rightarrow> ResultPlanBuilder \<Rightarrow> error + (ResultPlan list \<times> ResultPlanBuilder)"
where
  "build SGF init (OrigTuple os) substType b =
     (case substType of
        SubstTuple substElts \<Rightarrow> buildForTuple SGF init (OrigTuple os) substElts b
      | SubstScalar n \<Rightarrow> Inl CastToTupleTypeFailed)"
| "build SGF init (OrigOpaque n) substType b =
     (case allResults b of
        [] \<Rightarrow> Inl AllResultsEmpty
      | result # rest \<Rightarrow>
          (let b1 = b\<lparr>allResults := rest\<rparr>;
               scalar =
                 (if isSILIndirect result
                  then (let (temporary, b2) =
                              emitTemporary b1 (getLoweredType SGF (resultType result))
                        in Inr (ScalarResultPlan (Some temporary) (OrigOpaque n) init (rep b2),
                                b2\<lparr>indirectResultAddrs :=
                                     indirectResultAddrs b2 @ [getAddress temporary]\<rparr>))
                  else Inr (ScalarResultPlan None (OrigOpaque n) init (rep b1), b1))
           in case init of
                None \<Rightarrow> scalar
              | Some i \<Rightarrow>
                  (case getAddressForInPlaceInitialization SGF i of
                     None \<Rightarrow> scalar
                   | Some initAddr \<Rightarrow>
                       if isSILIndirect result \<and>
                          \<not> hasAbstractionDifference SGF (getType initAddr) (rep b1)
                              (getSILStorageType result)
                       then Inr (InPlaceInitializationResultPlan i,
                                 b1\<lparr>indirectResultAddrs := indirectResultAddrs b1 @ [initAddr]\<rparr>)
                       else scalar)))"
| "buildForTuple SGF None origType substElts b =
     (case buildElements SGF None origType substElts 0 b of
        Inl e \<Rightarrow> Inl e
      | Inr (eltPlans, b') \<Rightarrow> Inr (TupleRValueResultPlan eltPlans, b'))"
| "buildForTuple SGF (Some init) origType substElts b =
     (if canSplitIntoTupleElements SGF init then
        (let eltInits = splitIntoTupleElements init substElts
         in case buildElements SGF (Some eltInits) origType substElts 0 b of
              Inl e \<Rightarrow> Inl e
            | Inr (eltPlans, b') \<Rightarrow>
                Inr (TupleInitializationResultPlan init eltInits eltPlans, b'))
      else if isAddressOnly SGF (SubstTuple substElts) then
        (let (temporary, b1) = emitTemporary b (getLoweredType SGF (SubstTuple substElts))
         in case buildForTuple SGF (Some (TemporaryInit temporary)) origType substElts b1 of
              Inl e \<Rightarrow> Inl e
            | Inr (subplan, b') \<Rightarrow>
                Inr (InitValueFromTemporaryResultPlan init subplan temporary, b'))
      else
        (case buildForTuple SGF None origType substElts b of
           Inl e \<Rightarrow> Inl e
         | Inr (subplan, b') \<Rightarrow> Inr (InitValueFromRValueResultPlan init subplan, b')))"
| "buildElements SGF eltInits origType substElts i b =
     (if i < length substElts then
        (case getTupleElementType origType i of
           Inl e \<Rightarrow> Inl e
         | Inr origEltType \<Rightarrow>
             (case eltInitAt eltInits i of
                Inl e \<Rightarrow> Inl e
              | Inr eltInit \<Rightarrow>
                  (case build SGF eltInit origEltType (substElts ! i) b of
                     Inl e \<Rightarrow> Inl e
                   | Inr (eltPlan, b1) \<Rightarrow>
                       (case buildElements SGF eltInits origType substElts (Suc i) b1 of
                          Inl e \<Rightarrow> Inl e
                        | Inr (eltPlans, b') \<Rightarrow> Inr (eltPlan # eltPlans, b')))))
      else Inr ([], b))"
  by pat_completeness auto
termination
proof -
  have smaller: "size e < size orig" if "getTupleElementType orig i = Inr e" for orig i e
  proof (cases orig)
    case (OrigOpaque n)
    with that show ?thesis by simp
  next
    case (OrigTuple os)
    with that have "i < length os" and "e = os ! i"
      by (auto split: if_splits)
    then have "e \<in> set os" by simp
    then have "size e \<le> size_list size os" by (rule size_list_estimation') simp
    with OrigTuple show ?thesis by simp
  qed
  show ?thesis
    by (relation "inv_image (less_than <*lex*> less_than <*lex*> less_than)
       (\<lambda>x. case x of
          Inl (SGF, init, orig, subst, b) \<Rightarrow> (size orig, 3::nat, 0::nat)
        | Inr (Inl (SGF, init, orig, substElts, b)) \<Rightarrow>
            (size orig,
             (case init of
                None \<Rightarrow> 1
              | Some i \<Rightarrow> if canSplitIntoTupleElements SGF i then 1 else 2), 0)
        | Inr (Inr (SGF, eltInits, orig, substElts, i, b)) \<Rightarrow>
            (size orig, 0, length substElts - i))")
      (auto simp: smaller split: option.splits)
qed

declare build.simps [simp del] buildForTuple.simps [simp del] buildElements.simps [simp del]

subsection \<open>Finishing a plan\<close>

text \<open>Modelled from the spec: \<open>RValue.h\<close> is not part of the sources.  An
  r-value is either used (what \<open>RValue()\<close> makes: nothing is left to place) or
  holds, for a formal type, the values of its leaves in order.  Adding a used
  element, and taking the single value of a used r-value, are defects.\<close>

datatype RValue = RValueUsed | RValue CanType "SILValue list"

fun isUsed :: "RValue \<Rightarrow> bool" where
  "isUsed RValueUsed = True"
| "isUsed (RValue t vs) = False"

fun addElement :: "RValue \<Rightarrow> RValue \<Rightarrow> error + RValue" where
  "addElement (RValue t vs) (RValue t' vs') = Inr (RValue t (vs @ vs'))"
| "addElement tupleRV element = Inl RValueAlreadyUsed"

fun getAsSingleValue :: "SILGenFunction \<Rightarrow> RValue \<Rightarrow> error + SILValue" where
  "getAsSingleValue SGF RValueUsed = Inl RValueAlreadyUsed"
| "getAsSingleValue SGF (RValue (SubstTuple ts) vs) = Inr (implodeTuple SGF (SubstTuple ts) vs)"
| "getAsSingleValue SGF (RValue (SubstScalar n) [v]) = Inr v"
| "getAsSingleValue SGF (RValue (SubstScalar n) vs) = Inl ExplodedNonTuple"

text \<open>What \<open>finish\<close> does besides advancing the cursor, in the order it does
  it: the calls on destinations and on the code generator, and each value taken
  off the front of the direct results.  The call of \<open>emitOrigToSubstValue\<close> is
  recorded with what it returned.\<close>

datatype Event =
    FinishInitialization Initialization
  | CopyOrInitValueInto Initialization SILValue
  | EmitLoad SILValue
  | EmitBridgedToNativeValue SILValue SILFunctionTypeRepresentation CanType
  | EmitOrigToSubstValue SILValue AbstractionPattern CanType "Initialization option" ManagedValue
  | TakeDirectResult SILValue

text \<open>\<open>finish\<close> takes the cursor \<open>directResults\<close> by reference: the functions
  below take it and return what is left of it, with the r-value and the events.

  \<open>ScalarResultPlan::finish\<close>, lines 63 to 84: claim the value, out of the
  temporary or off the direct results.\<close>

definition ScalarResultPlan_claim ::
  "SILGenFunction \<Rightarrow> TemporaryInitialization option \<Rightarrow> CanType \<Rightarrow> SILValue list \<Rightarrow>
   error + (SILValue \<times> SILValue list \<times> Event list)" where
  "ScalarResultPlan_claim SGF temporary substType directResults =
     (case temporary of
        Some temp \<Rightarrow>
          (let value = getAddress temp
           in if \<not> isAddressOnly SGF substType
              then Inr (LoadTake value, directResults,
                        [FinishInitialization (TemporaryInit temp), EmitLoad value])
              else Inr (value, directResults, [FinishInitialization (TemporaryInit temp)]))
      | None \<Rightarrow>
          (case directResults of
             [] \<Rightarrow> Inl DirectResultsEmpty
           | value # rest \<Rightarrow> Inr (value, rest, [TakeDirectResult value])))"

text \<open>\<open>ScalarResultPlan::finish\<close>, lines 106 to 115: emit into the initialization
  if it exists, else return the r-value.\<close>

definition ScalarResultPlan_store ::
  "Initialization option \<Rightarrow> CanType \<Rightarrow> SILValue \<Rightarrow> RValue \<times> Event list" where
  "ScalarResultPlan_store init substType value =
     (case init of
        Some i \<Rightarrow> (RValueUsed, [CopyOrInitValueInto i value, FinishInitialization i])
      | None \<Rightarrow> (RValue substType [value], []))"

definition ScalarResultPlan_finish ::
  "SILGenFunction \<Rightarrow> TemporaryInitialization option \<Rightarrow> AbstractionPattern \<Rightarrow>
   Initialization option \<Rightarrow> SILFunctionTypeRepresentation \<Rightarrow> CanType \<Rightarrow> SILValue list \<Rightarrow>
   error + (RValue \<times> SILValue list \<times> Event list)" where
  "ScalarResultPlan_finish SGF temporary origType init rp substType directResults =
     (case ScalarResultPlan_claim SGF temporary substType directResults of
        Inl e \<Rightarrow> Inl e
      | Inr (value, directResults', claimed) \<Rightarrow>
          if hasAbstractionDifference SGF (getType value) rp (getLoweredType SGF substType) then
            if getSILFunctionLanguage rp = C then
              (let (rv, stored) =
                     ScalarResultPlan_store init substType
                       (emitBridgedToNativeValue SGF value rp substType)
               in Inr (rv, directResults',
                       claimed @ [EmitBridgedToNativeValue value rp substType] @ stored))
            else
              (let value' = emitOrigToSubstValue SGF value origType substType init;
                   reabstracted = [EmitOrigToSubstValue value origType substType init value']
               in case value' of
                    InContext \<Rightarrow> Inr (RValueUsed, directResults', claimed @ reabstracted)
                  | Managed v \<Rightarrow>
                      (let (rv, stored) = ScalarResultPlan_store init substType v
                       in Inr (rv, directResults', claimed @ reabstracted @ stored)))
          else
            (let (rv, stored) = ScalarResultPlan_store init substType value
             in Inr (rv, directResults', claimed @ stored)))"

fun finish ::
    "SILGenFunction \<Rightarrow> ResultPlan \<Rightarrow> CanType \<Rightarrow> SILValue list \<Rightarrow>
     error + (RValue \<times> SILValue list \<times> Event list)"
  and TupleRValueResultPlan_elements ::
    "SILGenFunction \<Rightarrow> ResultPlan list \<Rightarrow> CanType list \<Rightarrow> RValue \<Rightarrow> SILValue list \<Rightarrow>
     error + (RValue \<times> SILValue list \<times> Event list)"
  and TupleInitializationResultPlan_elements ::
    "SILGenFunction \<Rightarrow> ResultPlan list \<Rightarrow> CanType list \<Rightarrow> SILValue list \<Rightarrow>
     error + (SILValue list \<times> Event list)"
where
  "finish SGF (InPlaceInitializationResultPlan init) substType directResults =
     Inr (RValueUsed, directResults, [FinishInitialization init])"
| "finish SGF (ScalarResultPlan temporary origType init rp) substType directResults =
     ScalarResultPlan_finish SGF temporary origType init rp substType directResults"
| "finish SGF (InitValueFromTemporaryResultPlan init subPlan temporary) substType directResults =
     (case finish SGF subPlan substType directResults of
        Inl e \<Rightarrow> Inl e
      | Inr (subResult, directResults', events) \<Rightarrow>
          if \<not> isUsed subResult then Inl SubPlanDidNotEmitIntoContext
          else
            (let value = getAddress temporary
             in Inr (RValueUsed, directResults',
                     events @ [CopyOrInitValueInto init value, FinishInitialization init])))"
| "finish SGF (InitValueFromRValueResultPlan init subPlan) substType directResults =
     (case finish SGF subPlan substType directResults of
        Inl e \<Rightarrow> Inl e
      | Inr (subResult, directResults', events) \<Rightarrow>
          (case getAsSingleValue SGF subResult of
             Inl e \<Rightarrow> Inl e
           | Inr value \<Rightarrow>
               Inr (RValueUsed, directResults',
                    events @ [CopyOrInitValueInto init value, FinishInitialization init])))"
| "finish SGF (TupleRValueResultPlan eltPlans) substType directResults =
     (case substType of
        SubstScalar n \<Rightarrow> Inl CastToTupleTypeFailed
      | SubstTuple substElts \<Rightarrow>
          if length substElts \<noteq> length eltPlans then Inl ElementCountMismatch
          else TupleRValueResultPlan_elements SGF eltPlans substElts (RValue substType [])
                 directResults)"
| "finish SGF (TupleInitializationResultPlan tupleInit eltInits eltPlans) substType directResults =
     (case substType of
        SubstScalar n \<Rightarrow> Inl CastToTupleTypeFailed
      | SubstTuple substElts \<Rightarrow>
          if length substElts \<noteq> length eltPlans then Inl ElementCountMismatch
          else
            (case TupleInitializationResultPlan_elements SGF eltPlans substElts directResults of
               Inl e \<Rightarrow> Inl e
             | Inr (directResults', events) \<Rightarrow>
                 Inr (RValueUsed, directResults', events @ [FinishInitialization tupleInit])))"
| "TupleRValueResultPlan_elements SGF [] substElts tupleRV directResults =
     (case substElts of
        [] \<Rightarrow> Inr (tupleRV, directResults, [])
      | t # ts \<Rightarrow> Inl ElementCountMismatch)"
| "TupleRValueResultPlan_elements SGF (eltPlan # eltPlans) substElts tupleRV directResults =
     (case substElts of
        [] \<Rightarrow> Inl ElementCountMismatch
      | eltType # eltTypes \<Rightarrow>
          (case finish SGF eltPlan eltType directResults of
             Inl e \<Rightarrow> Inl e
           | Inr (eltRV, directResults1, events1) \<Rightarrow>
               (case addElement tupleRV eltRV of
                  Inl e \<Rightarrow> Inl e
                | Inr tupleRV' \<Rightarrow>
                    (case TupleRValueResultPlan_elements SGF eltPlans eltTypes tupleRV'
                            directResults1 of
                       Inl e \<Rightarrow> Inl e
                     | Inr (rv, directResults', events) \<Rightarrow>
                         Inr (rv, directResults', events1 @ events)))))"
| "TupleInitializationResultPlan_elements SGF [] substElts directResults =
     (case substElts of
        [] \<Rightarrow> Inr (directResults, [])
      | t # ts \<Rightarrow> Inl ElementCountMismatch)"
| "TupleInitializationResultPlan_elements SGF (eltPlan # eltPlans) substElts directResults =
     (case substElts of
        [] \<Rightarrow> Inl ElementCountMismatch
      | eltType # eltTypes \<Rightarrow>
          (case finish SGF eltPlan eltType directResults of
             Inl e \<Rightarrow> Inl e
           | Inr (eltRV, directResults1, events1) \<Rightarrow>
               if \<not> isUsed eltRV then Inl SubPlanDidNotEmitIntoContext
               else
                 (case TupleInitializationResultPlan_elements SGF eltPlans eltTypes
                         directResults1 of
                    Inl e \<Rightarrow> Inl e
                  | Inr (directResults', events) \<Rightarrow> Inr (directResults', events1 @ events))))"

subsection \<open>What the properties are stated with\<close>

text \<open>The non-tuple leaves of an abstraction pattern, left to right, and the
  substituted type found at the position of each of them.\<close>

fun leaves :: "AbstractionPattern \<Rightarrow> AbstractionPattern list" where
  "leaves (OrigOpaque n) = [OrigOpaque n]"
| "leaves (OrigTuple os) = concat (map leaves os)"

fun leafTypes :: "AbstractionPattern \<Rightarrow> CanType \<Rightarrow> CanType list"
  and leafTypesElements :: "AbstractionPattern list \<Rightarrow> CanType list \<Rightarrow> CanType list"
where
  "leafTypes (OrigOpaque n) t = [t]"
| "leafTypes (OrigTuple os) (SubstTuple ts) = leafTypesElements os ts"
| "leafTypes (OrigTuple os) (SubstScalar n) = []"
| "leafTypesElements (orig # os) (t # ts) = leafTypes orig t @ leafTypesElements os ts"
| "leafTypesElements os ts = []"

text \<open>The non-tuple leaves of a substituted type, left to right.\<close>

fun substLeaves :: "CanType \<Rightarrow> CanType list" where
  "substLeaves (SubstScalar n) = [SubstScalar n]"
| "substLeaves (SubstTuple ts) = concat (map substLeaves ts)"

text \<open>The invariant of the data model: wherever the abstraction pattern is a
  tuple, the substituted type is a tuple of the same number of elements.\<close>

fun mirrors :: "AbstractionPattern \<Rightarrow> CanType \<Rightarrow> bool"
  and mirrorsElements :: "AbstractionPattern list \<Rightarrow> CanType list \<Rightarrow> bool"
where
  "mirrors (OrigOpaque n) t = True"
| "mirrors (OrigTuple os) (SubstTuple ts) = mirrorsElements os ts"
| "mirrors (OrigTuple os) (SubstScalar n) = False"
| "mirrorsElements [] [] = True"
| "mirrorsElements (orig # os) (t # ts) = (mirrors orig t \<and> mirrorsElements os ts)"
| "mirrorsElements os ts = False"

text \<open>The leaf nodes of a plan, left to right, and the type each of them is
  finished with when the plan is finished with a type.\<close>

fun planLeaves :: "ResultPlan \<Rightarrow> ResultPlan list" where
  "planLeaves (InPlaceInitializationResultPlan init) = [InPlaceInitializationResultPlan init]"
| "planLeaves (ScalarResultPlan temporary origType init rp) =
     [ScalarResultPlan temporary origType init rp]"
| "planLeaves (InitValueFromTemporaryResultPlan init subPlan temporary) = planLeaves subPlan"
| "planLeaves (InitValueFromRValueResultPlan init subPlan) = planLeaves subPlan"
| "planLeaves (TupleRValueResultPlan eltPlans) = concat (map planLeaves eltPlans)"
| "planLeaves (TupleInitializationResultPlan tupleInit eltInits eltPlans) =
     concat (map planLeaves eltPlans)"

fun planLeafTypes :: "ResultPlan \<Rightarrow> CanType \<Rightarrow> CanType list"
  and planLeafTypesElements :: "ResultPlan list \<Rightarrow> CanType list \<Rightarrow> CanType list"
where
  "planLeafTypes (InPlaceInitializationResultPlan init) t = [t]"
| "planLeafTypes (ScalarResultPlan temporary origType init rp) t = [t]"
| "planLeafTypes (InitValueFromTemporaryResultPlan init subPlan temporary) t =
     planLeafTypes subPlan t"
| "planLeafTypes (InitValueFromRValueResultPlan init subPlan) t = planLeafTypes subPlan t"
| "planLeafTypes (TupleRValueResultPlan eltPlans) t =
     (case t of SubstTuple ts \<Rightarrow> planLeafTypesElements eltPlans ts | SubstScalar n \<Rightarrow> [])"
| "planLeafTypes (TupleInitializationResultPlan tupleInit eltInits eltPlans) t =
     (case t of SubstTuple ts \<Rightarrow> planLeafTypesElements eltPlans ts | SubstScalar n \<Rightarrow> [])"
| "planLeafTypesElements [] ts = []"
| "planLeafTypesElements (p # ps) ts =
     (case ts of [] \<Rightarrow> [] | t # ts' \<Rightarrow> planLeafTypes p t @ planLeafTypesElements ps ts')"

text \<open>A leaf node stands for an indirect result when it writes in place or
  holds a temporary; the address it contributed to the indirect-result
  addresses; the abstract leaf it was built for.\<close>

fun leafIsIndirect :: "ResultPlan \<Rightarrow> bool" where
  "leafIsIndirect (InPlaceInitializationResultPlan init) = True"
| "leafIsIndirect (ScalarResultPlan temporary origType init rp) = (temporary \<noteq> None)"
| "leafIsIndirect p = False"

fun leafAddress :: "SILGenFunction \<Rightarrow> ResultPlan \<Rightarrow> SILValue list" where
  "leafAddress SGF (InPlaceInitializationResultPlan init) =
     (case getAddressForInPlaceInitialization SGF init of None \<Rightarrow> [] | Some a \<Rightarrow> [a])"
| "leafAddress SGF (ScalarResultPlan (Some temporary) origType init rp) = [getAddress temporary]"
| "leafAddress SGF p = []"

fun leafFor :: "ResultPlan \<Rightarrow> AbstractionPattern \<Rightarrow> bool" where
  "leafFor (InPlaceInitializationResultPlan init) orig = True"
| "leafFor (ScalarResultPlan temporary origType init rp) orig = (origType = orig)"
| "leafFor p orig = False"

definition directCount :: "ResultPlan \<Rightarrow> nat" where
  "directCount plan = length (filter (\<lambda>p. \<not> leafIsIndirect p) (planLeaves plan))"

text \<open>What a run of the builder did to its state: the descriptors it took off
  the front of the queue are, one by one, those of the given leaves, and the
  addresses of the leaves were appended in order.\<close>

definition built ::
  "SILGenFunction \<Rightarrow> ResultPlanBuilder \<Rightarrow> ResultPlan list \<Rightarrow> ResultPlanBuilder \<Rightarrow> bool" where
  "built SGF b ls b' \<longleftrightarrow>
     (\<exists>consumed. allResults b = consumed @ allResults b' \<and>
        map isSILIndirect consumed = map leafIsIndirect ls) \<and>
     rep b' = rep b \<and>
     indirectResultAddrs b' = indirectResultAddrs b @ concat (map (leafAddress SGF) ls)"

text \<open>The values taken off the direct results, and the destinations finalized,
  as the events tell.  Modelled from the spec: when \<open>emitOrigToSubstValue\<close>
  reports that it emitted into the context, it has finalized that destination
  itself.\<close>

fun takenBy :: "Event \<Rightarrow> SILValue list" where
  "takenBy (TakeDirectResult v) = [v]"
| "takenBy e = []"

definition directTaken :: "Event list \<Rightarrow> SILValue list" where
  "directTaken events = concat (map takenBy events)"

fun finalizedBy :: "Event \<Rightarrow> Initialization list" where
  "finalizedBy (FinishInitialization init) = [init]"
| "finalizedBy (EmitOrigToSubstValue v orig t (Some init) InContext) = [init]"
| "finalizedBy e = []"

definition finalized :: "Event list \<Rightarrow> Initialization list" where
  "finalized events = concat (map finalizedBy events)"


fun leafInit :: "ResultPlan \<Rightarrow> Initialization list" where
  "leafInit (InPlaceInitializationResultPlan init) = [init]"
| "leafInit (ScalarResultPlan temporary origType (Some init) rp) = [init]"
| "leafInit p = []"

definition leafInits :: "ResultPlan \<Rightarrow> Initialization list" where
  "leafInits plan = concat (map leafInit (planLeaves plan))"

text \<open>A node returns a used r-value when it has a destination.  The number of
  values in the r-value of a node without one.\<close>

fun returnsUsed :: "ResultPlan \<Rightarrow> bool" where
  "returnsUsed (ScalarResultPlan temporary origType None rp) = False"
| "returnsUsed (TupleRValueResultPlan eltPlans) = False"
| "returnsUsed p = True"

fun valueCount :: "ResultPlan \<Rightarrow> nat" where
  "valueCount (ScalarResultPlan temporary origType None rp) = 1"
| "valueCount (TupleRValueResultPlan eltPlans) = sum_list (map valueCount eltPlans)"
| "valueCount p = 0"

fun rvalueValues :: "RValue \<Rightarrow> SILValue list" where
  "rvalueValues RValueUsed = []"
| "rvalueValues (RValue t vs) = vs"

text \<open>The contract of the reabstraction service: it reports a value as emitted
  into the context only when it was given one.\<close>

definition contextContract :: "SILGenFunction \<Rightarrow> bool" where
  "contextContract SGF \<longleftrightarrow>
     (\<forall>v orig t. emitOrigToSubstValue SGF v orig t None \<noteq> InContext)"

text \<open>Finishing a list of nodes one after the other, each with its type: the
  traversal that the finishing of a plan is compared with.\<close>

fun finishEach ::
  "SILGenFunction \<Rightarrow> ResultPlan list \<Rightarrow> CanType list \<Rightarrow> SILValue list \<Rightarrow>
   error + (RValue list \<times> SILValue list \<times> Event list)" where
  "finishEach SGF [] ts directResults = Inr ([], directResults, [])"
| "finishEach SGF (p # ps) [] directResults = Inl ElementCountMismatch"
| "finishEach SGF (p # ps) (t # ts) directResults =
     (case finish SGF p t directResults of
        Inl e \<Rightarrow> Inl e
      | Inr (rv, directResults1, events1) \<Rightarrow>
          (case finishEach SGF ps ts directResults1 of
             Inl e \<Rightarrow> Inl e
           | Inr (rvs, directResults', events) \<Rightarrow>
               Inr (rv # rvs, directResults', events1 @ events)))"

text \<open>The sub-destinations are as many as the elements of the tuple.\<close>

definition eltInitsFit :: "Initialization list option \<Rightarrow> CanType list \<Rightarrow> bool" where
  "eltInitsFit eltInits ts \<longleftrightarrow> (case eltInits of None \<Rightarrow> True | Some inits \<Rightarrow> length inits = length ts)"

subsection \<open>A concrete call\<close>

text \<open>Services for the examples: a scalar type lowers to the loadable type of
  the same number, two types differ in abstraction when their numbers differ,
  the caller's destinations have an address and split, and no conversion emits
  into the context.\<close>

definition exampleSGF :: SILGenFunction where
  "exampleSGF =
     \<lparr>getLoweredType = (\<lambda>t. case t of SubstScalar n \<Rightarrow> SILType n Object
                                     | SubstTuple ts \<Rightarrow> SILType 99 Object),
      isAddressOnly = (\<lambda>t. False),
      hasAbstractionDifference =
        (\<lambda>a r b. case a of SILType n c \<Rightarrow> (case b of SILType m d \<Rightarrow> n \<noteq> m)),
      addressForInPlace =
        (\<lambda>i. case i of TupleElementInit (CallerInit k) j \<Rightarrow> Some (Value (10 + j) (SILType (Suc j) Address))
                      | _ \<Rightarrow> None),
      canSplit = (\<lambda>i. True),
      emitBridgedToNativeValue = (\<lambda>v r t. v),
      emitOrigToSubstValue = (\<lambda>v orig t c. Managed v),
      implodeTuple = (\<lambda>t vs. Value 1000 (SILType 99 Object))\<rparr>"

text \<open>A callee with an indirect and a direct result, called natively.\<close>

definition exampleBuilder :: ResultPlanBuilder where
  "exampleBuilder =
     \<lparr>allResults =
        [\<lparr>resultType = SubstScalar 1, isSILIndirect = True, getSILStorageType = SILType 1 Address\<rparr>,
         \<lparr>resultType = SubstScalar 2, isSILIndirect = False, getSILStorageType = SILType 2 Object\<rparr>],
      indirectResultAddrs = [],
      rep = Thick,
      nextTemporary = 0\<rparr>"

definition exampleOrig :: AbstractionPattern where
  "exampleOrig = OrigTuple [OrigOpaque 0, OrigOpaque 1]"

definition exampleSubst :: CanType where
  "exampleSubst = SubstTuple [SubstScalar 1, SubstScalar 2]"

definition exampleDirect :: "SILValue list" where
  "exampleDirect = [Value 7 (SILType 2 Object)]"

text \<open>The same services, except that the reabstraction emits into the context
  whenever it is given one.\<close>

definition exampleInContextSGF :: SILGenFunction where
  "exampleInContextSGF =
     exampleSGF\<lparr>emitOrigToSubstValue :=
       (\<lambda>v orig t c. case c of None \<Rightarrow> Managed v | Some i \<Rightarrow> InContext)\<rparr>"

text \<open>The same services, except that no destination splits and every tuple is
  address-only, or none is.\<close>

definition exampleUnsplittableSGF :: "bool \<Rightarrow> SILGenFunction" where
  "exampleUnsplittableSGF addressOnly =
     exampleSGF\<lparr>canSplit := (\<lambda>i. False), isAddressOnly := (\<lambda>t. addressOnly)\<rparr>"

text \<open>Where a destination comes from: the number of the temporary at its root,
  if any; how many splits below its root it is; and whether it is another
  destination or was split off it, in any number of steps.\<close>

fun rootTemporary :: "Initialization \<Rightarrow> nat option" where
  "rootTemporary (CallerInit n) = None"
| "rootTemporary (TemporaryInit (TemporaryInitialization k ty)) = Some k"
| "rootTemporary (TupleElementInit p i) = rootTemporary p"


fun under :: "Initialization \<Rightarrow> Initialization \<Rightarrow> bool" where
  "under a (TupleElementInit p i) = (TupleElementInit p i = a \<or> under a p)"
| "under a x = (x = a)"

text \<open>A destination is fresh for a builder when it is not rooted at a temporary
  that the builder has yet to allocate; a destination is new between two states
  of the builder when it is rooted at a temporary allocated between them.\<close>

definition fresh :: "nat \<Rightarrow> Initialization \<Rightarrow> bool" where
  "fresh lo init \<longleftrightarrow> (case rootTemporary init of None \<Rightarrow> True | Some k \<Rightarrow> k < lo)"

definition newTemporary :: "nat \<Rightarrow> nat \<Rightarrow> Initialization \<Rightarrow> bool" where
  "newTemporary lo hi x \<longleftrightarrow> (case rootTemporary x of None \<Rightarrow> False | Some k \<Rightarrow> lo \<le> k \<and> k < hi)"

definition ownedInits :: "Initialization set \<Rightarrow> nat \<Rightarrow> nat \<Rightarrow> Initialization list \<Rightarrow> bool" where
  "ownedInits owners lo hi xs \<longleftrightarrow>
     lo \<le> hi \<and> distinct xs \<and> (\<forall>x \<in> set xs. (\<exists>a \<in> owners. under a x) \<or> newTemporary lo hi x)"



text \<open>Building a list of elements one after the other, front to back, element
  \<open>i\<close> of the pattern against element \<open>i\<close> of the substituted type and the
  \<open>i\<close>-th destination: the traversal that the element loop of the builder is
  compared with.\<close>

fun buildEach ::
  "SILGenFunction \<Rightarrow> Initialization option list \<Rightarrow> AbstractionPattern list \<Rightarrow> CanType list \<Rightarrow>
   ResultPlanBuilder \<Rightarrow> error + (ResultPlan list \<times> ResultPlanBuilder)" where
  "buildEach SGF [] [] [] b = Inr ([], b)"
| "buildEach SGF (init # inits) (orig # os) (t # ts) b =
     (case build SGF init orig t b of
        Inl e \<Rightarrow> Inl e
      | Inr (p, b1) \<Rightarrow>
          (case buildEach SGF inits os ts b1 of
             Inl e \<Rightarrow> Inl e
           | Inr (ps, b') \<Rightarrow> Inr (p # ps, b')))"
| "buildEach SGF inits os ts b = Inl ElementCountMismatch"

text \<open>The destinations of the elements, as a list.\<close>

definition eltInitList :: "Initialization list option \<Rightarrow> CanType list \<Rightarrow> Initialization option list" where
  "eltInitList eltInits ts =
     (case eltInits of None \<Rightarrow> replicate (length ts) None | Some inits \<Rightarrow> map Some inits)"

text \<open>The events that only the finishing of a scalar leaf emits: all but the
  calls on destinations.\<close>

fun leafOnly :: "Event \<Rightarrow> bool" where
  "leafOnly (FinishInitialization init) = False"
| "leafOnly (CopyOrInitValueInto init v) = False"
| "leafOnly e = True"

text \<open>A run of \<open>finish\<close> goes through the leaves in order: finishing the given
  leaf nodes one after the other, each with its type, moves the cursor as the
  run did and returns the given r-values, and the events of the leaves, block by
  block in that order, are among the events of the run, which has no other
  event that only a leaf emits.\<close>

definition inLeafOrder ::
  "SILGenFunction \<Rightarrow> ResultPlan list \<Rightarrow> CanType list \<Rightarrow> SILValue list \<Rightarrow> SILValue list \<Rightarrow>
   Event list \<Rightarrow> RValue list \<Rightarrow> bool" where
  "inLeafOrder SGF leafNodes types directResults directResults' events rvs \<longleftrightarrow>
     (\<exists>events'. finishEach SGF leafNodes types directResults = Inr (rvs, directResults', events') \<and>
        subseq events' events \<and> filter leafOnly events = filter leafOnly events')"

text \<open>A callee with two direct results, and two values whose types differ
  in abstraction from the lowered substituted types.\<close>

definition exampleDirectBuilder :: ResultPlanBuilder where
  "exampleDirectBuilder =
     \<lparr>allResults =
        [\<lparr>resultType = SubstScalar 1, isSILIndirect = False, getSILStorageType = SILType 1 Object\<rparr>,
         \<lparr>resultType = SubstScalar 2, isSILIndirect = False, getSILStorageType = SILType 2 Object\<rparr>],
      indirectResultAddrs = [],
      rep = Thick,
      nextTemporary = 0\<rparr>"

definition exampleTwoDirect :: "SILValue list" where
  "exampleTwoDirect = [Value 7 (SILType 5 Object), Value 8 (SILType 6 Object)]"


text \<open>The r-values of leaves that each return one value, of the given types.\<close>

definition oneValueEach :: "CanType list \<Rightarrow> SILValue list \<Rightarrow> RValue list" where
  "oneValueEach types vs = map2 (\<lambda>t v. RValue t [v]) types vs"


subsection \<open>The builder: equations and what a successful run leaves behind\<close>

lemma built_Nil: "built SGF b [] b"
  by (simp add: built_def)

lemma built_append: "built SGF b ls b1 \<Longrightarrow> built SGF b1 ls' b' \<Longrightarrow> built SGF b (ls @ ls') b'"
  by (auto simp: built_def)

lemma built_nextTemporary:
  "built SGF (b\<lparr>nextTemporary := k\<rparr>) ls b' \<Longrightarrow> built SGF b ls b'"
  by (auto simp: built_def)

lemma build_tuple:
  "build SGF init (OrigTuple os) (SubstTuple ts) b = buildForTuple SGF init (OrigTuple os) ts b"
  "build SGF init (OrigTuple os) (SubstScalar k) b = Inl CastToTupleTypeFailed"
  by (simp_all add: build.simps)

lemma build_leaf_Inr:
  assumes "build SGF init (OrigOpaque n) subst b = Inr (plan, b')"
  obtains result rest a i where "allResults b = result # rest"
      "init = Some i" "getAddressForInPlaceInitialization SGF i = Some a"
      "isSILIndirect result"
      "\<not> hasAbstractionDifference SGF (getType a) (rep b) (getSILStorageType result)"
      "plan = InPlaceInitializationResultPlan i"
      "b' = b\<lparr>allResults := rest, indirectResultAddrs := indirectResultAddrs b @ [a]\<rparr>"
  | result rest where "allResults b = result # rest" "isSILIndirect result"
      "plan = ScalarResultPlan
                (Some (TemporaryInitialization (nextTemporary b) (getLoweredType SGF (resultType result))))
                (OrigOpaque n) init (rep b)"
      "b' = b\<lparr>allResults := rest, nextTemporary := Suc (nextTemporary b),
               indirectResultAddrs := indirectResultAddrs b @
                 [AllocStack (nextTemporary b) (getLoweredType SGF (resultType result))]\<rparr>"
  | result rest where "allResults b = result # rest" "\<not> isSILIndirect result"
      "plan = ScalarResultPlan None (OrigOpaque n) init (rep b)"
      "b' = b\<lparr>allResults := rest\<rparr>"
  using assms
  by (auto simp: build.simps Let_def emitTemporary_def
           split: list.splits option.splits if_splits)

lemma buildForTuple_None:
  "buildForTuple SGF None orig ts b =
     (case buildElements SGF None orig ts 0 b of
        Inl e \<Rightarrow> Inl e
      | Inr (eltPlans, b') \<Rightarrow> Inr (TupleRValueResultPlan eltPlans, b'))"
  by (simp add: buildForTuple.simps)

lemma buildForTuple_Some:
  "buildForTuple SGF (Some init) orig ts b =
     (if canSplitIntoTupleElements SGF init then
        (case buildElements SGF (Some (splitIntoTupleElements init ts)) orig ts 0 b of
           Inl e \<Rightarrow> Inl e
         | Inr (eltPlans, b') \<Rightarrow>
             Inr (TupleInitializationResultPlan init (splitIntoTupleElements init ts) eltPlans, b'))
      else if isAddressOnly SGF (SubstTuple ts) then
        (case buildForTuple SGF
                (Some (TemporaryInit (TemporaryInitialization (nextTemporary b)
                         (getLoweredType SGF (SubstTuple ts)))))
                orig ts (b\<lparr>nextTemporary := Suc (nextTemporary b)\<rparr>) of
           Inl e \<Rightarrow> Inl e
         | Inr (subplan, b') \<Rightarrow>
             Inr (InitValueFromTemporaryResultPlan init subplan
                    (TemporaryInitialization (nextTemporary b)
                       (getLoweredType SGF (SubstTuple ts))), b'))
      else
        (case buildForTuple SGF None orig ts b of
           Inl e \<Rightarrow> Inl e
         | Inr (subplan, b') \<Rightarrow> Inr (InitValueFromRValueResultPlan init subplan, b')))"
  by (subst buildForTuple.simps) (simp add: Let_def emitTemporary_def)

lemma buildElements_unfold:
  "buildElements SGF eltInits orig ts i b =
     (if i < length ts then
        (case getTupleElementType orig i of
           Inl e \<Rightarrow> Inl e
         | Inr origEltType \<Rightarrow>
             (case eltInitAt eltInits i of
                Inl e \<Rightarrow> Inl e
              | Inr eltInit \<Rightarrow>
                  (case build SGF eltInit origEltType (ts ! i) b of
                     Inl e \<Rightarrow> Inl e
                   | Inr (eltPlan, b1) \<Rightarrow>
                       (case buildElements SGF eltInits orig ts (Suc i) b1 of
                          Inl e \<Rightarrow> Inl e
                        | Inr (eltPlans, b') \<Rightarrow> Inr (eltPlan # eltPlans, b')))))
      else Inr ([], b))"
  by (subst buildElements.simps) simp

lemma buildElements_Inr:
  assumes "buildElements SGF eltInits orig ts i b = Inr (plans, b')"
  obtains "\<not> i < length ts" "plans = []" "b' = b"
  | origEltType eltInit eltPlan b1 eltPlans where "i < length ts"
      "getTupleElementType orig i = Inr origEltType"
      "eltInitAt eltInits i = Inr eltInit"
      "build SGF eltInit origEltType (ts ! i) b = Inr (eltPlan, b1)"
      "buildElements SGF eltInits orig ts (Suc i) b1 = Inr (eltPlans, b')"
      "plans = eltPlan # eltPlans"
  using assms
  by (subst (asm) buildElements_unfold) (auto split: if_splits sum.splits)

lemma build_built:
  "build SGF init orig subst b = Inr (plan, b') \<Longrightarrow> built SGF b (planLeaves plan) b'"
  "buildForTuple SGF init orig substElts b = Inr (plan, b') \<Longrightarrow> built SGF b (planLeaves plan) b'"
  "buildElements SGF eltInits orig substElts i b = Inr (plans, b') \<Longrightarrow>
     built SGF b (concat (map planLeaves plans)) b'"
proof (induction SGF init orig subst b and SGF init orig substElts b
         and SGF eltInits orig substElts i b
       arbitrary: plan b' and plan b' and plans b'
       rule: build_buildForTuple_buildElements.induct)
  case (1 SGF init os substType b)
  then show ?case by (cases substType) (auto simp: build_tuple)
next
  case (2 SGF init n substType b)
  from "2.prems" show ?case
    by (elim build_leaf_Inr) (auto simp: built_def)
next
  case (3 SGF origType substElts b)
  then show ?case by (auto simp: buildForTuple_None split: sum.splits)
next
  case (4 SGF init origType substElts b)
  let ?temp = "TemporaryInitialization (nextTemporary b) (getLoweredType SGF (SubstTuple substElts))"
  let ?b1 = "b\<lparr>nextTemporary := Suc (nextTemporary b)\<rparr>"
  have em: "(?temp, ?b1) = emitTemporary b (getLoweredType SGF (SubstTuple substElts))"
    by (simp add: emitTemporary_def)
  show ?case
  proof (cases "canSplitIntoTupleElements SGF init")
    case True
    with "4.prems" "4.IH"(1)[OF True refl] show ?thesis
      by (auto simp: buildForTuple_Some split: sum.splits)
  next
    case False
    show ?thesis
    proof (cases "isAddressOnly SGF (SubstTuple substElts)")
      case True
      with False "4.prems" "4.IH"(2)[OF False True refl em] show ?thesis
        by (auto simp: buildForTuple_Some split: sum.splits intro: built_nextTemporary)
    next
      case F2: False
      with False "4.prems" "4.IH"(3)[OF False F2] show ?thesis
        by (auto simp: buildForTuple_Some split: sum.splits)
    qed
  qed
next
  case (5 SGF eltInits origType substElts i b)
  from "5.prems" show ?case
  proof (cases rule: buildElements_Inr)
    case 1
    then show ?thesis by (simp add: built_Nil)
  next
    case (2 origEltType eltInit eltPlan b1 eltPlans)
    have "built SGF b (planLeaves eltPlan) b1"
      using "5.IH"(1) 2 by simp
    moreover have "built SGF b1 (concat (map planLeaves eltPlans)) b'"
      using "5.IH"(2)[OF _ _ _ _ refl] 2 by simp
    ultimately show ?thesis using 2 by (simp add: built_append)
  qed
qed

lemma mirrorsElements_length: "mirrorsElements os ts \<Longrightarrow> length os = length ts"
proof (induction os arbitrary: ts)
  case Nil
  then show ?case by (cases ts) auto
next
  case (Cons a os)
  then show ?case by (cases ts) auto
qed

lemma mirrorsElements_nth:
  "mirrorsElements os ts \<Longrightarrow> i < length ts \<Longrightarrow> mirrors (os ! i) (ts ! i)"
proof (induction os arbitrary: ts i)
  case Nil
  then show ?case by (cases ts) auto
next
  case (Cons a os)
  then show ?case by (cases ts; cases i) auto
qed

lemma build_leaves:
  "build SGF init orig subst b = Inr (plan, b') \<Longrightarrow> mirrors orig subst \<Longrightarrow>
     list_all2 leafFor (planLeaves plan) (leaves orig) \<and>
     planLeafTypes plan subst = leafTypes orig subst"
  "buildForTuple SGF init orig substElts b = Inr (plan, b') \<Longrightarrow>
     (\<forall>os. orig = OrigTuple os \<longrightarrow> mirrorsElements os substElts \<longrightarrow>
       list_all2 leafFor (planLeaves plan) (leaves orig) \<and>
       planLeafTypes plan (SubstTuple substElts) = leafTypesElements os substElts)"
  "buildElements SGF eltInits orig substElts i b = Inr (plans, b') \<Longrightarrow>
     (\<forall>os. orig = OrigTuple os \<longrightarrow> mirrorsElements os substElts \<longrightarrow>
       list_all2 leafFor (concat (map planLeaves plans)) (concat (map leaves (drop i os))) \<and>
       planLeafTypesElements plans (drop i substElts) =
         leafTypesElements (drop i os) (drop i substElts))"
proof (induction SGF init orig subst b and SGF init orig substElts b
         and SGF eltInits orig substElts i b
       arbitrary: plan b' and plan b' and plans b'
       rule: build_buildForTuple_buildElements.induct)
  case (1 SGF init os substType b)
  then show ?case by (cases substType) (auto simp: build_tuple)
next
  case (2 SGF init n substType b)
  from "2.prems"(1) show ?case
    by (elim build_leaf_Inr) auto
next
  case (3 SGF origType substElts b)
  from "3.prems" "3.IH" show ?case
    by (auto simp: buildForTuple_None split: sum.splits)
next
  case (4 SGF init origType substElts b)
  let ?temp = "TemporaryInitialization (nextTemporary b) (getLoweredType SGF (SubstTuple substElts))"
  let ?b1 = "b\<lparr>nextTemporary := Suc (nextTemporary b)\<rparr>"
  have em: "(?temp, ?b1) = emitTemporary b (getLoweredType SGF (SubstTuple substElts))"
    by (simp add: emitTemporary_def)
  show ?case
  proof (cases "canSplitIntoTupleElements SGF init")
    case True
    with "4.prems" "4.IH"(1)[OF True refl] show ?thesis
      by (auto simp: buildForTuple_Some split: sum.splits)
  next
    case False
    show ?thesis
    proof (cases "isAddressOnly SGF (SubstTuple substElts)")
      case True
      with False "4.prems" "4.IH"(2)[OF False True refl em] show ?thesis
        by (auto simp: buildForTuple_Some split: sum.splits)
    next
      case F2: False
      with False "4.prems" "4.IH"(3)[OF False F2] show ?thesis
        by (auto simp: buildForTuple_Some split: sum.splits)
    qed
  qed
next
  case (5 SGF eltInits origType substElts i b)
  from "5.prems" show ?case
  proof (cases rule: buildElements_Inr)
    case 1
    then show ?thesis by (auto dest: mirrorsElements_length)
  next
    case (2 origEltType eltInit eltPlan b1 eltPlans)
    show ?thesis
    proof (intro allI impI)
      fix os assume o: "origType = OrigTuple os" and m: "mirrorsElements os substElts"
      from m have len: "length os = length substElts" by (rule mirrorsElements_length)
      with 2 o have e: "origEltType = os ! i" by (auto split: if_splits)
      from m 2 have "mirrors (os ! i) (substElts ! i)" by (simp add: mirrorsElements_nth)
      with "5.IH"(1) 2 e
      have A: "list_all2 leafFor (planLeaves eltPlan) (leaves (os ! i)) \<and>
               planLeafTypes eltPlan (substElts ! i) = leafTypes (os ! i) (substElts ! i)"
        by simp
      from "5.IH"(2)[OF _ _ _ _ refl] 2 o m
      have B: "list_all2 leafFor (concat (map planLeaves eltPlans))
                 (concat (map leaves (drop (Suc i) os))) \<and>
               planLeafTypesElements eltPlans (drop (Suc i) substElts) =
                 leafTypesElements (drop (Suc i) os) (drop (Suc i) substElts)"
        by simp
      from 2 len have d: "drop i substElts = substElts ! i # drop (Suc i) substElts"
        "drop i os = os ! i # drop (Suc i) os"
        by (simp_all add: Cons_nth_drop_Suc)
      from A B 2 show "list_all2 leafFor (concat (map planLeaves plans))
              (concat (map leaves (drop i os))) \<and>
             planLeafTypesElements plans (drop i substElts) =
               leafTypesElements (drop i os) (drop i substElts)"
        by (simp add: d list_all2_appendI)
    qed
  qed
qed

lemma built_length: "built SGF b ls b' \<Longrightarrow> length (allResults b) = length ls + length (allResults b')"
proof -
  assume "built SGF b ls b'"
  then obtain consumed where c: "allResults b = consumed @ allResults b'"
    and m: "map isSILIndirect consumed = map leafIsIndirect ls"
    by (auto simp: built_def)
  from m have "length consumed = length ls" by (rule map_eq_imp_length_eq)
  with c show ?thesis by simp
qed

lemma build_consumes:
  assumes "build SGF init orig subst b = Inr (plan, b')" and "mirrors orig subst"
  shows "length (allResults b) = length (leaves orig) + length (allResults b')"
proof -
  from assms have "list_all2 leafFor (planLeaves plan) (leaves orig)"
    by (simp add: build_leaves(1))
  then have "length (planLeaves plan) = length (leaves orig)" by (rule list_all2_lengthD)
  with built_length [OF build_built(1) [OF assms(1)]] show ?thesis by simp
qed


lemma eltInitAt_None: "eltInitAt None i = Inr None"
  by (simp add: eltInitAt_def)

lemma eltInitsFit_simps [simp]:
  "eltInitsFit None ts" "eltInitsFit (Some (splitIntoTupleElements init ts)) ts"
  by (simp_all add: eltInitsFit_def splitIntoTupleElements_def)

lemma build_total:
  "mirrors orig subst \<Longrightarrow> length (leaves orig) \<le> length (allResults b) \<Longrightarrow>
     \<exists>plan b'. build SGF init orig subst b = Inr (plan, b')"
  "(\<exists>os. orig = OrigTuple os \<and> mirrorsElements os substElts) \<Longrightarrow>
     length (leaves orig) \<le> length (allResults b) \<Longrightarrow>
     \<exists>plan b'. buildForTuple SGF init orig substElts b = Inr (plan, b')"
  "(\<exists>os. orig = OrigTuple os \<and> mirrorsElements os substElts \<and>
       length (concat (map leaves (drop i os))) \<le> length (allResults b)) \<Longrightarrow>
     eltInitsFit eltInits substElts \<Longrightarrow>
     \<exists>plans b'. buildElements SGF eltInits orig substElts i b = Inr (plans, b')"
proof (induction SGF init orig subst b and SGF init orig substElts b
         and SGF eltInits orig substElts i b
       rule: build_buildForTuple_buildElements.induct)
  case (1 SGF init os substType b)
  then show ?case by (cases substType) (auto simp: build_tuple)
next
  case (2 SGF init n substType b)
  then show ?case
    by (cases "allResults b")
       (auto simp: build.simps Let_def emitTemporary_def split: option.splits)
next
  case (3 SGF origType substElts b)
  from "3.prems" have "\<exists>plans b'. buildElements SGF None origType substElts 0 b = Inr (plans, b')"
    by (intro "3.IH") auto
  then show ?case by (auto simp: buildForTuple_None)
next
  case (4 SGF init origType substElts b)
  let ?temp = "TemporaryInitialization (nextTemporary b) (getLoweredType SGF (SubstTuple substElts))"
  let ?b1 = "b\<lparr>nextTemporary := Suc (nextTemporary b)\<rparr>"
  have em: "(?temp, ?b1) = emitTemporary b (getLoweredType SGF (SubstTuple substElts))"
    by (simp add: emitTemporary_def)
  show ?case
  proof (cases "canSplitIntoTupleElements SGF init")
    case True
    from "4.prems" have "\<exists>plans b'. buildElements SGF (Some (splitIntoTupleElements init substElts))
        origType substElts 0 b = Inr (plans, b')"
      by (intro "4.IH"(1)[OF True refl]) auto
    with True show ?thesis by (auto simp: buildForTuple_Some)
  next
    case False
    show ?thesis
    proof (cases "isAddressOnly SGF (SubstTuple substElts)")
      case True
      from "4.prems" have "\<exists>plan b'. buildForTuple SGF (Some (TemporaryInit ?temp)) origType
          substElts ?b1 = Inr (plan, b')"
        by (intro "4.IH"(2)[OF False True refl em]) auto
      with False True show ?thesis by (auto simp: buildForTuple_Some)
    next
      case F2: False
      from "4.prems" have "\<exists>plan b'. buildForTuple SGF None origType substElts b = Inr (plan, b')"
        by (intro "4.IH"(3)[OF False F2]) auto
      with False F2 show ?thesis by (auto simp: buildForTuple_Some)
    qed
  qed
next
  case (5 SGF eltInits origType substElts i b)
  from "5.prems" obtain os where o: "origType = OrigTuple os" and m: "mirrorsElements os substElts"
    and enough: "length (concat (map leaves (drop i os))) \<le> length (allResults b)"
    by auto
  from m have len: "length os = length substElts" by (rule mirrorsElements_length)
  show ?case
  proof (cases "i < length substElts")
    case False
    then show ?thesis by (subst buildElements_unfold) simp
  next
    case True
    with len have d: "drop i os = os ! i # drop (Suc i) os"
      by (simp add: Cons_nth_drop_Suc)
    from True len o have g: "getTupleElementType origType i = Inr (os ! i)" by simp
    from True "5.prems"(2) obtain eltInit where ei: "eltInitAt eltInits i = Inr eltInit"
      by (auto simp: eltInitAt_def eltInitsFit_def split: option.splits)
    from m True have mi: "mirrors (os ! i) (substElts ! i)" by (rule mirrorsElements_nth)
    from enough d have e1: "length (leaves (os ! i)) \<le> length (allResults b)" by simp
    from "5.IH"(1)[OF True g ei mi e1]
    obtain eltPlan b1 where bl: "build SGF eltInit (os ! i) (substElts ! i) b = Inr (eltPlan, b1)"
      by auto
    from build_consumes [OF bl mi] enough d
    have e2: "length (concat (map leaves (drop (Suc i) os))) \<le> length (allResults b1)"
      by simp
    from "5.IH"(2)[OF True g ei bl refl _ "5.prems"(2)] o m e2
    obtain eltPlans b' where
      "buildElements SGF eltInits origType substElts (Suc i) b1 = Inr (eltPlans, b')"
      by blast
    with True g ei bl show ?thesis
      by (subst buildElements_unfold) simp
  qed
qed

subsection \<open>Finishing: the element loops as a traversal in order\<close>

lemma finishEach_append:
  "length ps = length ts \<Longrightarrow>
   finishEach SGF (ps @ ps') (ts @ ts') ds =
     (case finishEach SGF ps ts ds of
        Inl e \<Rightarrow> Inl e
      | Inr (rvs, ds1, evs1) \<Rightarrow>
          (case finishEach SGF ps' ts' ds1 of
             Inl e \<Rightarrow> Inl e
           | Inr (rvs', ds', evs') \<Rightarrow> Inr (rvs @ rvs', ds', evs1 @ evs')))"
proof (induction ps ts arbitrary: ds rule: list_induct2)
  case Nil
  then show ?case by (auto split: sum.splits)
next
  case (Cons p ps t ts)
  then show ?case by (auto split: sum.splits)
qed

lemma finishEach_length:
  "finishEach SGF ps ts ds = Inr (rvs, ds', evs) \<Longrightarrow> length rvs = length ps \<and> length ps \<le> length ts"
proof (induction ps arbitrary: ts ds rvs ds' evs)
  case Nil
  then show ?case by simp
next
  case (Cons p ps)
  then show ?case by (cases ts) (auto split: sum.splits)
qed

lemma TupleInitializationResultPlan_elements_Inr:
  "TupleInitializationResultPlan_elements SGF ps ts ds = Inr (ds', evs) \<Longrightarrow>
     length ts = length ps \<and>
     (\<exists>rvs. finishEach SGF ps ts ds = Inr (rvs, ds', evs) \<and> (\<forall>rv \<in> set rvs. isUsed rv))"
proof (induction ps arbitrary: ts ds ds' evs)
  case Nil
  then show ?case by (cases ts) auto
next
  case (Cons p ps)
  from Cons.prems show ?case
    by (cases ts) (auto split: sum.splits if_splits dest!: Cons.IH)
qed

lemma TupleInitializationResultPlan_elements_intro:
  "finishEach SGF ps ts ds = Inr (rvs, ds', evs) \<Longrightarrow> length ts = length ps \<Longrightarrow>
   \<forall>rv \<in> set rvs. isUsed rv \<Longrightarrow>
   TupleInitializationResultPlan_elements SGF ps ts ds = Inr (ds', evs)"
proof (induction ps arbitrary: ts ds rvs ds' evs)
  case Nil
  then show ?case by (cases ts) auto
next
  case (Cons p ps)
  from Cons.prems show ?case
    by (cases ts) (auto split: sum.splits simp: Cons.IH)
qed

lemma TupleRValueResultPlan_elements_Inr:
  "TupleRValueResultPlan_elements SGF ps ts tupleRV ds = Inr (rv, ds', evs) \<Longrightarrow>
     length ts = length ps \<and>
     (\<exists>rvs. finishEach SGF ps ts ds = Inr (rvs, ds', evs) \<and> (\<forall>rv \<in> set rvs. \<not> isUsed rv) \<and>
        (ps = [] \<longrightarrow> rv = tupleRV) \<and>
        (\<forall>T vs0. tupleRV = RValue T vs0 \<longrightarrow>
           rv = RValue T (vs0 @ concat (map rvalueValues rvs))))"
proof (induction ps arbitrary: ts ds ds' evs tupleRV)
  case Nil
  then show ?case by (cases ts) auto
next
  case (Cons p ps)
  show ?case
  proof (cases ts)
    case Nil
    with Cons.prems show ?thesis by simp
  next
    case ts: (Cons t ts')
    from Cons.prems ts obtain rv1 ds1 evs1 tupleRV' evs2 where
      f: "finish SGF p t ds = Inr (rv1, ds1, evs1)" and
      a: "addElement tupleRV rv1 = Inr tupleRV'" and
      r: "TupleRValueResultPlan_elements SGF ps ts' tupleRV' ds1 = Inr (rv, ds', evs2)" and
      e: "evs = evs1 @ evs2"
      by (auto split: sum.splits)
    from a obtain T vs0 T1 vs1 where
      t: "tupleRV = RValue T vs0" "rv1 = RValue T1 vs1" "tupleRV' = RValue T (vs0 @ vs1)"
      by (cases tupleRV; cases rv1) auto
    from Cons.IH [OF r] t f e ts show ?thesis by auto
  qed
qed

lemma TupleRValueResultPlan_elements_intro:
  "finishEach SGF ps ts ds = Inr (rvs, ds', evs) \<Longrightarrow> length ts = length ps \<Longrightarrow>
   \<forall>rv \<in> set rvs. \<not> isUsed rv \<Longrightarrow>
   TupleRValueResultPlan_elements SGF ps ts (RValue T vs0) ds =
     Inr (RValue T (vs0 @ concat (map rvalueValues rvs)), ds', evs)"
proof (induction ps arbitrary: ts ds rvs ds' evs vs0)
  case Nil
  then show ?case by (cases ts) auto
next
  case (Cons p ps)
  show ?case
  proof (cases ts)
    case Nil
    with Cons.prems show ?thesis by simp
  next
    case ts: (Cons t ts')
    from Cons.prems ts obtain rv1 ds1 evs1 rvs' evs2 where
      f: "finish SGF p t ds = Inr (rv1, ds1, evs1)" and
      r: "finishEach SGF ps ts' ds1 = Inr (rvs', ds', evs2)" and
      e: "evs = evs1 @ evs2" "rvs = rv1 # rvs'"
      by (auto split: sum.splits)
    from Cons.prems e obtain T1 vs1 where t: "rv1 = RValue T1 vs1"
      by (cases rv1) auto
    from Cons.IH [OF r, of "vs0 @ vs1"] Cons.prems ts f e t show ?thesis by auto
  qed
qed

subsection \<open>Finishing: the cursor over the direct results\<close>

lemma finish_TupleRValue_Inr:
  assumes "finish SGF (TupleRValueResultPlan ps) t ds = Inr (rv, ds', evs)"
  obtains ts rvs where "t = SubstTuple ts" "length ts = length ps"
    "finishEach SGF ps ts ds = Inr (rvs, ds', evs)" "\<forall>rv \<in> set rvs. \<not> isUsed rv"
    "rv = RValue t (concat (map rvalueValues rvs))"
proof (cases t)
  case (SubstScalar n)
  with assms show ?thesis by simp
next
  case (SubstTuple ts)
  with assms have "TupleRValueResultPlan_elements SGF ps ts (RValue t []) ds = Inr (rv, ds', evs)"
    by (auto split: if_splits)
  from TupleRValueResultPlan_elements_Inr [OF this] SubstTuple that show ?thesis by auto
qed

lemma finish_TupleInitialization_Inr:
  assumes "finish SGF (TupleInitializationResultPlan tupleInit eltInits ps) t ds = Inr (rv, ds', evs)"
  obtains ts rvs evs0 where "t = SubstTuple ts" "length ts = length ps"
    "finishEach SGF ps ts ds = Inr (rvs, ds', evs0)" "\<forall>rv \<in> set rvs. isUsed rv"
    "rv = RValueUsed" "evs = evs0 @ [FinishInitialization tupleInit]"
proof (cases t)
  case (SubstScalar n)
  with assms show ?thesis by simp
next
  case (SubstTuple ts)
  with assms obtain evs0 where
    "TupleInitializationResultPlan_elements SGF ps ts ds = Inr (ds', evs0)"
    "rv = RValueUsed" "evs = evs0 @ [FinishInitialization tupleInit]"
    by (auto split: if_splits sum.splits)
  with TupleInitializationResultPlan_elements_Inr [OF this(1)] SubstTuple that show ?thesis
    by auto
qed

lemma finish_InitValueFromTemporary_Inr:
  assumes "finish SGF (InitValueFromTemporaryResultPlan init sub temporary) t ds = Inr (rv, ds', evs)"
  obtains evs0 where "finish SGF sub t ds = Inr (RValueUsed, ds', evs0)" "rv = RValueUsed"
    "evs = evs0 @ [CopyOrInitValueInto init (getAddress temporary), FinishInitialization init]"
proof -
  from assms obtain subResult evs0 where
    f: "finish SGF sub t ds = Inr (subResult, ds', evs0)" and u: "isUsed subResult" and
    r: "rv = RValueUsed"
      "evs = evs0 @ [CopyOrInitValueInto init (getAddress temporary), FinishInitialization init]"
    by (auto split: sum.splits if_splits)
  from u have "subResult = RValueUsed" by (cases subResult) auto
  with f r that show ?thesis by simp
qed

lemma finish_InitValueFromRValue_Inr:
  assumes "finish SGF (InitValueFromRValueResultPlan init sub) t ds = Inr (rv, ds', evs)"
  obtains subResult evs0 v where "finish SGF sub t ds = Inr (subResult, ds', evs0)"
    "getAsSingleValue SGF subResult = Inr v" "rv = RValueUsed"
    "evs = evs0 @ [CopyOrInitValueInto init v, FinishInitialization init]"
  using assms by (auto split: sum.splits)

text \<open>The cursor: what is taken is a prefix, one value for each direct leaf.\<close>

lemma directTaken_append [simp]: "directTaken (xs @ ys) = directTaken xs @ directTaken ys"
  by (simp add: directTaken_def)

lemma directTaken_simps [simp]:
  "directTaken [] = []"
  "directTaken (TakeDirectResult v # es) = v # directTaken es"
  "directTaken (FinishInitialization i # es) = directTaken es"
  "directTaken (CopyOrInitValueInto i w # es) = directTaken es"
  "directTaken (EmitLoad w # es) = directTaken es"
  "directTaken (EmitBridgedToNativeValue w r t # es) = directTaken es"
  "directTaken (EmitOrigToSubstValue w orig t c m # es) = directTaken es"
  by (simp_all add: directTaken_def)

lemma directCount_simps [simp]:
  "directCount (InPlaceInitializationResultPlan i) = 0"
  "directCount (ScalarResultPlan temporary orig init rp) = (if temporary = None then 1 else 0)"
  "directCount (InitValueFromTemporaryResultPlan i sub tmp) = directCount sub"
  "directCount (InitValueFromRValueResultPlan i sub) = directCount sub"
  "directCount (TupleRValueResultPlan ps) = sum_list (map directCount ps)"
  "directCount (TupleInitializationResultPlan i is ps) = sum_list (map directCount ps)"
  by (simp_all add: directCount_def [abs_def] length_concat filter_concat comp_def)

lemma ScalarResultPlan_store_taken [simp]:
  "directTaken (snd (ScalarResultPlan_store init t v)) = []"
  by (simp add: ScalarResultPlan_store_def split: option.splits)

lemma ScalarResultPlan_finish_cursor:
  assumes "ScalarResultPlan_finish SGF temporary orig init rp t ds = Inr (rv, ds', evs)"
  shows "ds = directTaken evs @ ds' \<and> length (directTaken evs) = (if temporary = None then 1 else 0)"
  using assms
  by (auto simp: ScalarResultPlan_finish_def ScalarResultPlan_claim_def Let_def
                 ScalarResultPlan_store_def
           split: sum.splits option.splits list.splits if_splits ManagedValue.splits prod.splits)

lemma finishEach_cursor:
  assumes "\<forall>p \<in> set ps. \<forall>t ds rv ds' evs. finish SGF p t ds = Inr (rv, ds', evs) \<longrightarrow>
             ds = directTaken evs @ ds' \<and> length (directTaken evs) = directCount p"
    and "finishEach SGF ps ts ds = Inr (rvs, ds', evs)"
  shows "ds = directTaken evs @ ds' \<and> length (directTaken evs) = sum_list (map directCount ps)"
  using assms
proof (induction ps arbitrary: ts ds rvs ds' evs)
  case Nil
  then show ?case by simp
next
  case (Cons p ps)
  from Cons.prems(2) obtain t ts' rv1 ds1 evs1 rvs' evs2 where
    ts: "ts = t # ts'" and f: "finish SGF p t ds = Inr (rv1, ds1, evs1)" and
    r: "finishEach SGF ps ts' ds1 = Inr (rvs', ds', evs2)" and e: "evs = evs1 @ evs2"
    by (cases ts) (auto split: sum.splits)
  from Cons.prems(1) f have 1: "ds = directTaken evs1 @ ds1"
    "length (directTaken evs1) = directCount p" by auto
  from Cons.prems(1) have "\<forall>p \<in> set ps. \<forall>t ds rv ds' evs. finish SGF p t ds = Inr (rv, ds', evs) \<longrightarrow>
             ds = directTaken evs @ ds' \<and> length (directTaken evs) = directCount p"
    by simp
  from Cons.IH [OF this r] have 2: "ds1 = directTaken evs2 @ ds'"
    "length (directTaken evs2) = sum_list (map directCount ps)" by simp_all
  from 1 2 e show ?case by simp
qed

lemma finish_cursor:
  "finish SGF plan t ds = Inr (rv, ds', evs) \<Longrightarrow>
     ds = directTaken evs @ ds' \<and> length (directTaken evs) = directCount plan"
proof (induction plan arbitrary: t ds rv ds' evs)
  case (InPlaceInitializationResultPlan i)
  then show ?case by auto
next
  case (ScalarResultPlan temporary orig init rp)
  then show ?case by (auto dest: ScalarResultPlan_finish_cursor)
next
  case (InitValueFromTemporaryResultPlan i sub tmp)
  from InitValueFromTemporaryResultPlan.prems show ?case
    by (elim finish_InitValueFromTemporary_Inr)
       (auto dest: InitValueFromTemporaryResultPlan.IH)
next
  case (InitValueFromRValueResultPlan i sub)
  from InitValueFromRValueResultPlan.prems show ?case
    by (elim finish_InitValueFromRValue_Inr)
       (auto dest: InitValueFromRValueResultPlan.IH)
next
  case (TupleRValueResultPlan ps)
  from TupleRValueResultPlan.prems show ?case
  proof (elim finish_TupleRValue_Inr)
    fix ts rvs
    assume "finishEach SGF ps ts ds = Inr (rvs, ds', evs)"
    from finishEach_cursor [OF _ this] TupleRValueResultPlan.IH
    show ?thesis by auto
  qed
next
  case (TupleInitializationResultPlan i eis ps)
  from TupleInitializationResultPlan.prems show ?case
  proof (elim finish_TupleInitialization_Inr)
    fix ts rvs evs0
    assume "finishEach SGF ps ts ds = Inr (rvs, ds', evs0)"
      and e: "evs = evs0 @ [FinishInitialization i]"
    from finishEach_cursor [OF _ this(1)] TupleInitializationResultPlan.IH
    have "ds = directTaken evs0 @ ds' \<and>
          length (directTaken evs0) = sum_list (map directCount ps)"
      by auto
    with e show ?thesis by simp
  qed
qed

subsection \<open>Descriptor and direct-result balance\<close>

lemma filter_map_eq_length:
  assumes "map f xs = map g ys"
  shows "length (filter (\<lambda>x. \<not> f x) xs) = length (filter (\<lambda>y. \<not> g y) ys)"
proof -
  have "length (filter (\<lambda>x. \<not> f x) xs) = length (filter (\<lambda>b. \<not> b) (map f xs))"
    by (simp add: filter_map comp_def)
  also have "\<dots> = length (filter (\<lambda>b. \<not> b) (map g ys))" using assms by simp
  also have "\<dots> = length (filter (\<lambda>y. \<not> g y) ys)"
    by (simp add: filter_map comp_def)
  finally show ?thesis .
qed

lemma build_balance:
  assumes "mirrors orig subst" and "build SGF init orig subst b = Inr (plan, b')"
  shows "allResults b = take (length (leaves orig)) (allResults b) @ allResults b'"
    and "length (leaves orig) \<le> length (allResults b)"
    and "directCount plan =
           length (filter (\<lambda>r. \<not> isSILIndirect r) (take (length (leaves orig)) (allResults b)))"
    and "map leafIsIndirect (planLeaves plan) =
           map isSILIndirect (take (length (leaves orig)) (allResults b))"
    and "length (planLeaves plan) = length (leaves orig)"
proof -
  from assms have "list_all2 leafFor (planLeaves plan) (leaves orig)"
    by (simp add: build_leaves(1))
  then show len: "length (planLeaves plan) = length (leaves orig)" by (rule list_all2_lengthD)
  from build_built(1) [OF assms(2)] obtain consumed where
    c: "allResults b = consumed @ allResults b'" and
    m: "map isSILIndirect consumed = map leafIsIndirect (planLeaves plan)"
    by (auto simp: built_def)
  from m have "length consumed = length (planLeaves plan)" by (rule map_eq_imp_length_eq)
  with len have lc: "length consumed = length (leaves orig)" by simp
  with c have t: "take (length (leaves orig)) (allResults b) = consumed" by simp
  with c show "allResults b = take (length (leaves orig)) (allResults b) @ allResults b'"
    by simp
  from c lc show "length (leaves orig) \<le> length (allResults b)" by simp
  from m t show "map leafIsIndirect (planLeaves plan) =
           map isSILIndirect (take (length (leaves orig)) (allResults b))" by simp
  from filter_map_eq_length [OF m] t show "directCount plan =
      length (filter (\<lambda>r. \<not> isSILIndirect r) (take (length (leaves orig)) (allResults b)))"
    by (simp add: directCount_def)
qed

text \<open>
  C1.  Take a call whose substituted type mirrors the abstraction pattern, and
  let \<open>K\<close> be the number of non-tuple leaves of the pattern.  When the plan is
  built and then finished, building takes exactly the first \<open>K\<close> descriptors
  off the queue, and finishing takes off the direct results exactly one value
  for each of those descriptors that is direct.  So with \<open>K\<close> descriptors
  supplied none is left, and with as many direct values supplied as there are
  direct descriptors none is left.
\<close>

theorem C1_descriptor_and_direct_result_balance:
  assumes "mirrors orig subst"
    and "build SGF init orig subst b = Inr (plan, b')"
    and "finish SGF plan subst directResults = Inr (rv, directResults', events)"
  shows "length (leaves orig) \<le> length (allResults b) \<and>
         allResults b' = drop (length (leaves orig)) (allResults b) \<and>
         length (filter (\<lambda>r. \<not> isSILIndirect r) (take (length (leaves orig)) (allResults b)))
           \<le> length directResults \<and>
         directResults' =
           drop (length (filter (\<lambda>r. \<not> isSILIndirect r)
                   (take (length (leaves orig)) (allResults b)))) directResults \<and>
         (length (allResults b) = length (leaves orig) \<longrightarrow> allResults b' = []) \<and>
         (length directResults =
            length (filter (\<lambda>r. \<not> isSILIndirect r) (take (length (leaves orig)) (allResults b)))
          \<longrightarrow> directResults' = [])"
proof -
  let ?K = "length (leaves orig)"
  let ?D = "length (filter (\<lambda>r. \<not> isSILIndirect r) (take ?K (allResults b)))"
  note bb = build_balance [OF assms(1,2)]
  from bb(1) have "drop ?K (allResults b) = drop ?K (take ?K (allResults b) @ allResults b')"
    by simp
  also have "\<dots> = allResults b'" using bb(2) by simp
  finally have q: "allResults b' = drop ?K (allResults b)" by simp
  from finish_cursor [OF assms(3)] bb(3)
  have c: "directResults = directTaken events @ directResults'"
    and l: "length (directTaken events) = ?D" by simp_all
  from c l have d: "directResults' = drop ?D directResults"
    by (metis append_eq_conv_conj)
  from c l have le: "?D \<le> length directResults"
    by (metis le_add1 length_append)
  from q d le bb(2) show ?thesis by simp
qed

lemma example_build:
  "build exampleSGF (Some (CallerInit 0)) exampleOrig exampleSubst exampleBuilder =
     Inr (TupleInitializationResultPlan (CallerInit 0)
            [TupleElementInit (CallerInit 0) 0, TupleElementInit (CallerInit 0) 1]
            [InPlaceInitializationResultPlan (TupleElementInit (CallerInit 0) 0),
             ScalarResultPlan None (OrigOpaque 1) (Some (TupleElementInit (CallerInit 0) 1)) Thick],
          \<lparr>allResults = [], indirectResultAddrs = [Value 10 (SILType 1 Address)], rep = Thick,
             nextTemporary = 0\<rparr>)"
  by (simp add: build.simps buildForTuple.simps buildElements.simps exampleSGF_def
        exampleOrig_def exampleSubst_def exampleBuilder_def splitIntoTupleElements_def
        eltInitAt_def getAddressForInPlaceInitialization_def emitTemporary_def Let_def)

lemma example_finish:
  "finish exampleSGF
     (TupleInitializationResultPlan (CallerInit 0)
            [TupleElementInit (CallerInit 0) 0, TupleElementInit (CallerInit 0) 1]
            [InPlaceInitializationResultPlan (TupleElementInit (CallerInit 0) 0),
             ScalarResultPlan None (OrigOpaque 1) (Some (TupleElementInit (CallerInit 0) 1)) Thick])
     exampleSubst exampleDirect =
   Inr (RValueUsed, [],
        [FinishInitialization (TupleElementInit (CallerInit 0) 0),
         TakeDirectResult (Value 7 (SILType 2 Object)),
         CopyOrInitValueInto (TupleElementInit (CallerInit 0) 1) (Value 7 (SILType 2 Object)),
         FinishInitialization (TupleElementInit (CallerInit 0) 1),
         FinishInitialization (CallerInit 0)])"
  by (simp add: exampleSGF_def exampleSubst_def exampleDirect_def ScalarResultPlan_finish_def
        ScalarResultPlan_claim_def ScalarResultPlan_store_def Let_def)

lemma example_mirrors: "mirrors exampleOrig exampleSubst"
  by (simp add: exampleOrig_def exampleSubst_def)

theorem C1_witness:
  "mirrors exampleOrig exampleSubst \<and>
   (\<exists>plan b' rv. build exampleSGF (Some (CallerInit 0)) exampleOrig exampleSubst exampleBuilder
        = Inr (plan, b') \<and>
      finish exampleSGF plan exampleSubst exampleDirect = Inr (rv, [], 
        [FinishInitialization (TupleElementInit (CallerInit 0) 0),
         TakeDirectResult (Value 7 (SILType 2 Object)),
         CopyOrInitValueInto (TupleElementInit (CallerInit 0) 1) (Value 7 (SILType 2 Object)),
         FinishInitialization (TupleElementInit (CallerInit 0) 1),
         FinishInitialization (CallerInit 0)]) \<and>
      allResults b' = [])"
  using C1_descriptor_and_direct_result_balance [OF example_mirrors example_build example_finish]
    example_mirrors example_build example_finish
  by (simp add: exampleOrig_def exampleBuilder_def)

subsection \<open>The leaves of the builder, the reabstraction, and destinations that cannot split\<close>

text \<open>
  C2.  At a non-tuple abstract leaf with a destination that yields an address
  for in-place initialization, when the descriptor at the front of the queue is
  indirect and the type of that address has no abstraction difference from the
  storage type of the descriptor: the builder takes the descriptor, appends the
  address to the indirect-result addresses, allocates no temporary and returns
  an in-place node for the destination.  Finishing that node leaves the direct
  results as they are, calls the \<open>finishInitialization\<close> of the destination and
  nothing else, and returns a used r-value.
\<close>

theorem C2_in_place_fast_path:
  assumes "getAddressForInPlaceInitialization SGF init = Some initAddr"
    and "allResults b = result # rest"
    and "isSILIndirect result"
    and "\<not> hasAbstractionDifference SGF (getType initAddr) (rep b) (getSILStorageType result)"
  shows "build SGF (Some init) (OrigOpaque n) substType b =
           Inr (InPlaceInitializationResultPlan init,
                b\<lparr>allResults := rest,
                  indirectResultAddrs := indirectResultAddrs b @ [initAddr]\<rparr>) \<and>
         nextTemporary
           (b\<lparr>allResults := rest, indirectResultAddrs := indirectResultAddrs b @ [initAddr]\<rparr>) =
           nextTemporary b \<and>
         finish SGF (InPlaceInitializationResultPlan init) substType directResults =
           Inr (RValueUsed, directResults, [FinishInitialization init])"
  using assms by (simp add: build.simps Let_def)

theorem C2_witness:
  "getAddressForInPlaceInitialization exampleSGF (TupleElementInit (CallerInit 0) 0) =
     Some (Value 10 (SILType 1 Address)) \<and>
   isSILIndirect (hd (allResults exampleBuilder)) \<and>
   \<not> hasAbstractionDifference exampleSGF (getType (Value 10 (SILType 1 Address)))
       (rep exampleBuilder) (getSILStorageType (hd (allResults exampleBuilder))) \<and>
   build exampleSGF (Some (TupleElementInit (CallerInit 0) 0)) (OrigOpaque 0) (SubstScalar 1)
       exampleBuilder =
     Inr (InPlaceInitializationResultPlan (TupleElementInit (CallerInit 0) 0),
          \<lparr>allResults = tl (allResults exampleBuilder),
             indirectResultAddrs = [Value 10 (SILType 1 Address)], rep = Thick,
             nextTemporary = 0\<rparr>)"
proof -
  have 1: "getAddressForInPlaceInitialization exampleSGF (TupleElementInit (CallerInit 0) 0) =
      Some (Value 10 (SILType 1 Address))"
    by (simp add: getAddressForInPlaceInitialization_def exampleSGF_def)
  have 2: "allResults exampleBuilder =
      \<lparr>resultType = SubstScalar 1, isSILIndirect = True, getSILStorageType = SILType 1 Address\<rparr> #
      [\<lparr>resultType = SubstScalar 2, isSILIndirect = False, getSILStorageType = SILType 2 Object\<rparr>]"
    by (simp add: exampleBuilder_def)
  have 3: "isSILIndirect \<lparr>resultType = SubstScalar 1, isSILIndirect = True,
      getSILStorageType = SILType 1 Address\<rparr>" by simp
  have 4: "\<not> hasAbstractionDifference exampleSGF (getType (Value 10 (SILType 1 Address)))
       (rep exampleBuilder) (getSILStorageType \<lparr>resultType = SubstScalar 1, isSILIndirect = True,
      getSILStorageType = SILType 1 Address\<rparr>)"
    by (simp add: exampleSGF_def)
  from C2_in_place_fast_path [OF 1 2 3 4, of 0 "SubstScalar 1" "[]"] 1 2 3 4
  show ?thesis by (simp add: exampleBuilder_def)
qed

text \<open>
  C3.  In the finishing of a scalar node, once the value is claimed and its
  type has an abstraction difference from the lowered substituted type: under
  a C-language representation the value is bridged to native and then stored or
  returned; otherwise \<open>emitOrigToSubstValue\<close> is called with the destination of
  the node as its context, and when it reports the value as emitted into the
  context the node returns a used r-value at once, with no event after that
  call (no copy into the destination); when it returns a value, that value is
  stored or returned.
\<close>

theorem C3_scalar_reabstraction:
  assumes "ScalarResultPlan_claim SGF temporary substType directResults =
             Inr (value, directResults', claimed)"
    and "hasAbstractionDifference SGF (getType value) rp (getLoweredType SGF substType)"
  shows "(getSILFunctionLanguage rp = C \<longrightarrow>
            finish SGF (ScalarResultPlan temporary origType init rp) substType directResults =
              Inr (fst (ScalarResultPlan_store init substType
                          (emitBridgedToNativeValue SGF value rp substType)),
                   directResults',
                   claimed @ [EmitBridgedToNativeValue value rp substType] @
                   snd (ScalarResultPlan_store init substType
                          (emitBridgedToNativeValue SGF value rp substType)))) \<and>
         (getSILFunctionLanguage rp \<noteq> C \<longrightarrow>
            (emitOrigToSubstValue SGF value origType substType init = InContext \<longrightarrow>
               finish SGF (ScalarResultPlan temporary origType init rp) substType directResults =
                 Inr (RValueUsed, directResults',
                      claimed @ [EmitOrigToSubstValue value origType substType init InContext])) \<and>
            (\<forall>v. emitOrigToSubstValue SGF value origType substType init = Managed v \<longrightarrow>
               finish SGF (ScalarResultPlan temporary origType init rp) substType directResults =
                 Inr (fst (ScalarResultPlan_store init substType v), directResults',
                      claimed @ [EmitOrigToSubstValue value origType substType init (Managed v)] @
                      snd (ScalarResultPlan_store init substType v))))"
  using assms by (simp add: ScalarResultPlan_finish_def Let_def split: prod.splits)

theorem C3_witness:
  "ScalarResultPlan_claim exampleSGF None (SubstScalar 2) [Value 7 (SILType 3 Object)] =
     Inr (Value 7 (SILType 3 Object), [], [TakeDirectResult (Value 7 (SILType 3 Object))]) \<and>
   hasAbstractionDifference exampleSGF (getType (Value 7 (SILType 3 Object))) Block
     (getLoweredType exampleSGF (SubstScalar 2)) \<and>
   finish exampleSGF (ScalarResultPlan None (OrigOpaque 1) None Block) (SubstScalar 2)
       [Value 7 (SILType 3 Object)] =
     Inr (RValue (SubstScalar 2) [Value 7 (SILType 3 Object)], [],
          [TakeDirectResult (Value 7 (SILType 3 Object)),
           EmitBridgedToNativeValue (Value 7 (SILType 3 Object)) Block (SubstScalar 2)]) \<and>
   finish exampleInContextSGF (ScalarResultPlan None (OrigOpaque 1) (Some (CallerInit 0)) Thick)
       (SubstScalar 2) [Value 7 (SILType 3 Object)] =
     Inr (RValueUsed, [],
          [TakeDirectResult (Value 7 (SILType 3 Object)),
           EmitOrigToSubstValue (Value 7 (SILType 3 Object)) (OrigOpaque 1) (SubstScalar 2)
             (Some (CallerInit 0)) InContext]) \<and>
   finish exampleSGF (ScalarResultPlan None (OrigOpaque 1) (Some (CallerInit 0)) Thick)
       (SubstScalar 2) [Value 7 (SILType 3 Object)] =
     Inr (RValueUsed, [],
          [TakeDirectResult (Value 7 (SILType 3 Object)),
           EmitOrigToSubstValue (Value 7 (SILType 3 Object)) (OrigOpaque 1) (SubstScalar 2)
             (Some (CallerInit 0)) (Managed (Value 7 (SILType 3 Object))),
           CopyOrInitValueInto (CallerInit 0) (Value 7 (SILType 3 Object)),
           FinishInitialization (CallerInit 0)])"
proof -
  let ?v = "Value 7 (SILType 3 Object)"
  have c: "ScalarResultPlan_claim exampleSGF None (SubstScalar 2) [?v] =
      Inr (?v, [], [TakeDirectResult ?v])"
    "ScalarResultPlan_claim exampleInContextSGF None (SubstScalar 2) [?v] =
      Inr (?v, [], [TakeDirectResult ?v])"
    by (simp_all add: ScalarResultPlan_claim_def)
  have d: "hasAbstractionDifference exampleSGF (getType ?v) Block
      (getLoweredType exampleSGF (SubstScalar 2))"
    "hasAbstractionDifference exampleSGF (getType ?v) Thick
      (getLoweredType exampleSGF (SubstScalar 2))"
    "hasAbstractionDifference exampleInContextSGF (getType ?v) Thick
      (getLoweredType exampleInContextSGF (SubstScalar 2))"
    by (simp_all add: exampleSGF_def exampleInContextSGF_def)
  have e: "emitOrigToSubstValue exampleInContextSGF ?v (OrigOpaque 1) (SubstScalar 2)
      (Some (CallerInit 0)) = InContext"
    "emitOrigToSubstValue exampleSGF ?v (OrigOpaque 1) (SubstScalar 2)
      (Some (CallerInit 0)) = Managed ?v"
    "emitBridgedToNativeValue exampleSGF ?v Block (SubstScalar 2) = ?v"
    by (simp_all add: exampleSGF_def exampleInContextSGF_def)
  from C3_scalar_reabstraction [OF c(1) d(1), of "OrigOpaque 1" None]
       C3_scalar_reabstraction [OF c(2) d(3), of "OrigOpaque 1" "Some (CallerInit 0)"]
       C3_scalar_reabstraction [OF c(1) d(2), of "OrigOpaque 1" "Some (CallerInit 0)"]
       c d e
  show ?thesis by (simp add: ScalarResultPlan_store_def)
qed

text \<open>
  C4.  At a non-tuple abstract leaf that does not take the in-place path: for
  an indirect descriptor the builder allocates a temporary of the lowered type
  of the descriptor and appends its address to the indirect-result addresses;
  for a direct descriptor it allocates nothing and appends nothing.  Either way
  the node is a scalar node with the temporary (or none), the abstraction
  pattern, the destination and the representation of the builder.
\<close>

theorem C4_scalar_leaf:
  assumes "allResults b = result # rest"
    and "\<not> (\<exists>i a. init = Some i \<and> getAddressForInPlaceInitialization SGF i = Some a \<and>
               isSILIndirect result \<and>
               \<not> hasAbstractionDifference SGF (getType a) (rep b) (getSILStorageType result))"
  shows "build SGF init (OrigOpaque n) substType b =
           (if isSILIndirect result
            then Inr (ScalarResultPlan
                        (Some (TemporaryInitialization (nextTemporary b)
                                 (getLoweredType SGF (resultType result))))
                        (OrigOpaque n) init (rep b),
                      b\<lparr>allResults := rest,
                        nextTemporary := Suc (nextTemporary b),
                        indirectResultAddrs := indirectResultAddrs b @
                          [getAddress (TemporaryInitialization (nextTemporary b)
                                         (getLoweredType SGF (resultType result)))]\<rparr>)
            else Inr (ScalarResultPlan None (OrigOpaque n) init (rep b), b\<lparr>allResults := rest\<rparr>))"
  using assms
  by (auto simp: build.simps Let_def emitTemporary_def split: option.splits)

theorem C4_witness:
  "build exampleSGF None (OrigOpaque 0) (SubstScalar 1) exampleBuilder =
     Inr (ScalarResultPlan (Some (TemporaryInitialization 0 (SILType 1 Object))) (OrigOpaque 0)
            None Thick,
          \<lparr>allResults = tl (allResults exampleBuilder),
             indirectResultAddrs = [AllocStack 0 (SILType 1 Object)], rep = Thick,
             nextTemporary = 1\<rparr>) \<and>
   build exampleSGF (Some (CallerInit 0)) (OrigOpaque 1) (SubstScalar 2)
       (exampleBuilder\<lparr>allResults := tl (allResults exampleBuilder)\<rparr>) =
     Inr (ScalarResultPlan None (OrigOpaque 1) (Some (CallerInit 0)) Thick,
          \<lparr>allResults = [], indirectResultAddrs = [], rep = Thick, nextTemporary = 0\<rparr>)"
proof -
  let ?r1 = "\<lparr>resultType = SubstScalar 1, isSILIndirect = True,
                getSILStorageType = SILType 1 Address\<rparr>"
  let ?r2 = "\<lparr>resultType = SubstScalar 2, isSILIndirect = False,
                getSILStorageType = SILType 2 Object\<rparr>"
  have 1: "allResults exampleBuilder = ?r1 # [?r2]"
    by (simp add: exampleBuilder_def)
  have 2: "\<not> (\<exists>i a. (None :: Initialization option) = Some i \<and>
      getAddressForInPlaceInitialization exampleSGF i = Some a \<and> isSILIndirect ?r1 \<and>
      \<not> hasAbstractionDifference exampleSGF (getType a) (rep exampleBuilder)
          (getSILStorageType ?r1))"
    by simp
  have 3: "allResults (exampleBuilder\<lparr>allResults := tl (allResults exampleBuilder)\<rparr>) = ?r2 # []"
    by (simp add: exampleBuilder_def)
  have 4: "\<not> (\<exists>i a. Some (CallerInit 0) = Some i \<and>
      getAddressForInPlaceInitialization exampleSGF i = Some a \<and> isSILIndirect ?r2 \<and>
      \<not> hasAbstractionDifference exampleSGF (getType a)
          (rep (exampleBuilder\<lparr>allResults := tl (allResults exampleBuilder)\<rparr>))
          (getSILStorageType ?r2))"
    by simp
  from C4_scalar_leaf [OF 1 2, of 0 "SubstScalar 1"] C4_scalar_leaf [OF 3 4, of 1 "SubstScalar 2"]
  show ?thesis by (simp add: exampleBuilder_def exampleSGF_def)
qed

text \<open>
  C5.  For a tuple pattern built against a destination that cannot split, the
  address-only-ness of the whole substituted tuple type decides.  If it is
  address-only, the builder allocates one temporary of the lowered tuple type,
  builds the tuple plan against that temporary (a tuple-initialization node on
  the temporary) and wraps it, with the temporary, in a node that initializes
  the destination from the temporary.  Otherwise it builds the tuple plan with
  no destination (a tuple r-value node) and wraps it in a node that initializes
  the destination from the r-value.
\<close>

theorem C5_unsplittable_tuple_destination:
  assumes "\<not> canSplitIntoTupleElements SGF init"
  shows "build SGF (Some init) (OrigTuple os) (SubstTuple substElts) b =
           (if isAddressOnly SGF (SubstTuple substElts) then
              (case buildForTuple SGF
                      (Some (TemporaryInit (TemporaryInitialization (nextTemporary b)
                               (getLoweredType SGF (SubstTuple substElts)))))
                      (OrigTuple os) substElts (b\<lparr>nextTemporary := Suc (nextTemporary b)\<rparr>) of
                 Inl e \<Rightarrow> Inl e
               | Inr (subplan, b') \<Rightarrow>
                   Inr (InitValueFromTemporaryResultPlan init subplan
                          (TemporaryInitialization (nextTemporary b)
                             (getLoweredType SGF (SubstTuple substElts))), b'))
            else
              (case buildForTuple SGF None (OrigTuple os) substElts b of
                 Inl e \<Rightarrow> Inl e
               | Inr (subplan, b') \<Rightarrow> Inr (InitValueFromRValueResultPlan init subplan, b'))) \<and>
         (\<forall>subplan b'.
            buildForTuple SGF
              (Some (TemporaryInit (TemporaryInitialization (nextTemporary b)
                       (getLoweredType SGF (SubstTuple substElts)))))
              (OrigTuple os) substElts (b\<lparr>nextTemporary := Suc (nextTemporary b)\<rparr>) =
              Inr (subplan, b') \<longrightarrow>
            (\<exists>eltInits eltPlans.
               subplan = TupleInitializationResultPlan
                 (TemporaryInit (TemporaryInitialization (nextTemporary b)
                    (getLoweredType SGF (SubstTuple substElts)))) eltInits eltPlans)) \<and>
         (\<forall>subplan b'.
            buildForTuple SGF None (OrigTuple os) substElts b = Inr (subplan, b') \<longrightarrow>
            (\<exists>eltPlans. subplan = TupleRValueResultPlan eltPlans))"
proof (intro conjI allI impI)
  from assms show "build SGF (Some init) (OrigTuple os) (SubstTuple substElts) b =
           (if isAddressOnly SGF (SubstTuple substElts) then
              (case buildForTuple SGF
                      (Some (TemporaryInit (TemporaryInitialization (nextTemporary b)
                               (getLoweredType SGF (SubstTuple substElts)))))
                      (OrigTuple os) substElts (b\<lparr>nextTemporary := Suc (nextTemporary b)\<rparr>) of
                 Inl e \<Rightarrow> Inl e
               | Inr (subplan, b') \<Rightarrow>
                   Inr (InitValueFromTemporaryResultPlan init subplan
                          (TemporaryInitialization (nextTemporary b)
                             (getLoweredType SGF (SubstTuple substElts))), b'))
            else
              (case buildForTuple SGF None (OrigTuple os) substElts b of
                 Inl e \<Rightarrow> Inl e
               | Inr (subplan, b') \<Rightarrow> Inr (InitValueFromRValueResultPlan init subplan, b')))"
    by (simp add: build_tuple buildForTuple_Some)
next
  fix subplan b'
  assume "buildForTuple SGF
              (Some (TemporaryInit (TemporaryInitialization (nextTemporary b)
                       (getLoweredType SGF (SubstTuple substElts)))))
              (OrigTuple os) substElts (b\<lparr>nextTemporary := Suc (nextTemporary b)\<rparr>) =
              Inr (subplan, b')"
  then show "\<exists>eltInits eltPlans.
               subplan = TupleInitializationResultPlan
                 (TemporaryInit (TemporaryInitialization (nextTemporary b)
                    (getLoweredType SGF (SubstTuple substElts)))) eltInits eltPlans"
    by (auto simp: buildForTuple_Some split: sum.splits)
next
  fix subplan b'
  assume "buildForTuple SGF None (OrigTuple os) substElts b = Inr (subplan, b')"
  then show "\<exists>eltPlans. subplan = TupleRValueResultPlan eltPlans"
    by (auto simp: buildForTuple_None split: sum.splits)
qed

lemma example_build_address_only:
  "build (exampleUnsplittableSGF True) (Some (CallerInit 0)) exampleOrig exampleSubst
     exampleBuilder =
   Inr (InitValueFromTemporaryResultPlan (CallerInit 0)
          (TupleInitializationResultPlan
             (TemporaryInit (TemporaryInitialization 0 (SILType 99 Object)))
             [TupleElementInit (TemporaryInit (TemporaryInitialization 0 (SILType 99 Object))) 0,
              TupleElementInit (TemporaryInit (TemporaryInitialization 0 (SILType 99 Object))) 1]
             [ScalarResultPlan (Some (TemporaryInitialization 1 (SILType 1 Object))) (OrigOpaque 0)
                (Some (TupleElementInit
                   (TemporaryInit (TemporaryInitialization 0 (SILType 99 Object))) 0)) Thick,
              ScalarResultPlan None (OrigOpaque 1)
                (Some (TupleElementInit
                   (TemporaryInit (TemporaryInitialization 0 (SILType 99 Object))) 1)) Thick])
          (TemporaryInitialization 0 (SILType 99 Object)),
        \<lparr>allResults = [], indirectResultAddrs = [AllocStack 1 (SILType 1 Object)], rep = Thick,
           nextTemporary = 2\<rparr>)"
  by (simp add: build.simps buildForTuple.simps buildElements.simps exampleSGF_def
        exampleUnsplittableSGF_def
        exampleOrig_def exampleSubst_def exampleBuilder_def splitIntoTupleElements_def
        eltInitAt_def getAddressForInPlaceInitialization_def emitTemporary_def Let_def)

lemma example_build_loadable:
  "build (exampleUnsplittableSGF False) (Some (CallerInit 0)) exampleOrig exampleSubst
     exampleBuilder =
   Inr (InitValueFromRValueResultPlan (CallerInit 0)
          (TupleRValueResultPlan
             [ScalarResultPlan (Some (TemporaryInitialization 0 (SILType 1 Object))) (OrigOpaque 0)
                None Thick,
              ScalarResultPlan None (OrigOpaque 1) None Thick]),
        \<lparr>allResults = [], indirectResultAddrs = [AllocStack 0 (SILType 1 Object)], rep = Thick,
           nextTemporary = 1\<rparr>)"
  by (simp add: build.simps buildForTuple.simps buildElements.simps exampleSGF_def
        exampleUnsplittableSGF_def
        exampleOrig_def exampleSubst_def exampleBuilder_def splitIntoTupleElements_def
        eltInitAt_def getAddressForInPlaceInitialization_def emitTemporary_def Let_def)

theorem C5_witness:
  "\<not> canSplitIntoTupleElements (exampleUnsplittableSGF True) (CallerInit 0) \<and>
   isAddressOnly (exampleUnsplittableSGF True) exampleSubst \<and>
   \<not> canSplitIntoTupleElements (exampleUnsplittableSGF False) (CallerInit 0) \<and>
   \<not> isAddressOnly (exampleUnsplittableSGF False) exampleSubst \<and>
   (\<exists>eltInits eltPlans b'.
      build (exampleUnsplittableSGF True) (Some (CallerInit 0)) exampleOrig exampleSubst
        exampleBuilder =
      Inr (InitValueFromTemporaryResultPlan (CallerInit 0)
             (TupleInitializationResultPlan
                (TemporaryInit (TemporaryInitialization 0 (SILType 99 Object))) eltInits eltPlans)
             (TemporaryInitialization 0 (SILType 99 Object)), b')) \<and>
   (\<exists>eltPlans b'.
      build (exampleUnsplittableSGF False) (Some (CallerInit 0)) exampleOrig exampleSubst
        exampleBuilder =
      Inr (InitValueFromRValueResultPlan (CallerInit 0) (TupleRValueResultPlan eltPlans), b'))"
proof -
  have 1: "\<not> canSplitIntoTupleElements (exampleUnsplittableSGF True) (CallerInit 0)"
    "\<not> canSplitIntoTupleElements (exampleUnsplittableSGF False) (CallerInit 0)"
    by (simp_all add: exampleUnsplittableSGF_def)
  have 2: "isAddressOnly (exampleUnsplittableSGF True) exampleSubst"
    "\<not> isAddressOnly (exampleUnsplittableSGF False) exampleSubst"
    by (simp_all add: exampleUnsplittableSGF_def exampleSGF_def)
  from C5_unsplittable_tuple_destination [OF 1(1), of "[OrigOpaque 0, OrigOpaque 1]"
         "[SubstScalar 1, SubstScalar 2]" exampleBuilder]
       C5_unsplittable_tuple_destination [OF 1(2), of "[OrigOpaque 0, OrigOpaque 1]"
         "[SubstScalar 1, SubstScalar 2]" exampleBuilder]
       example_build_address_only example_build_loadable 1 2
  show ?thesis by (simp add: exampleOrig_def exampleSubst_def)
qed

text \<open>
  C10.  When the abstraction pattern is not a tuple, the builder takes exactly
  one descriptor and returns an in-place node or a scalar node, whatever the
  substituted type is: with a substituted tuple type it returns what it returns
  with any other substituted type, the whole tuple standing at one descriptor
  position.  So the builder descends into the elements of a tuple only where
  the abstraction pattern is one.
\<close>

theorem C10_opaque_pattern_takes_one_descriptor:
  assumes "allResults b = result # rest"
  shows "\<exists>plan b'.
           build SGF init (OrigOpaque n) (SubstTuple substElts) b = Inr (plan, b') \<and>
           allResults b' = rest \<and>
           ((\<exists>i. plan = InPlaceInitializationResultPlan i) \<or>
            (\<exists>temporary. plan = ScalarResultPlan temporary (OrigOpaque n) init (rep b))) \<and>
           planLeaves plan = [plan] \<and>
           (\<forall>substType. build SGF init (OrigOpaque n) substType b = Inr (plan, b'))"
  using assms
  by (auto simp: build.simps Let_def emitTemporary_def split: option.splits)

theorem C10_witness:
  "\<exists>plan b'.
     build exampleSGF None (OrigOpaque 0) exampleSubst exampleBuilder = Inr (plan, b') \<and>
     length (allResults b') = 1 \<and>
     plan = ScalarResultPlan (Some (TemporaryInitialization 0 (SILType 1 Object))) (OrigOpaque 0)
              None Thick"
proof -
  have 1: "allResults exampleBuilder =
      \<lparr>resultType = SubstScalar 1, isSILIndirect = True, getSILStorageType = SILType 1 Address\<rparr> #
      [\<lparr>resultType = SubstScalar 2, isSILIndirect = False, getSILStorageType = SILType 2 Object\<rparr>]"
    by (simp add: exampleBuilder_def)
  from C10_opaque_pattern_takes_one_descriptor [OF 1, of exampleSGF None 0
         "[SubstScalar 1, SubstScalar 2]"]
  show ?thesis
    by (auto simp: exampleSubst_def build.simps Let_def emitTemporary_def exampleSGF_def
          exampleBuilder_def)
qed

subsection \<open>The order of finishing in a tuple initialization\<close>

text \<open>
  C6.  A tuple-initialization node finishes exactly when the substituted type
  is a tuple of as many elements as there are element plans and the element
  plans, finished one after the other in element order, each on the direct
  results the one before left, all return a used r-value.  Its events are then
  those of the elements in that order followed by the \<open>finishInitialization\<close> of
  the tuple destination, which so comes after every element has completed, and
  the node returns a used r-value.
\<close>

theorem C6_tuple_initialization_order:
  "finish SGF (TupleInitializationResultPlan tupleInit eltInits eltPlans) substType directResults =
     Inr (rv, directResults', events) \<longleftrightarrow>
   rv = RValueUsed \<and>
   (\<exists>substElts rvs events0.
      substType = SubstTuple substElts \<and> length substElts = length eltPlans \<and>
      finishEach SGF eltPlans substElts directResults = Inr (rvs, directResults', events0) \<and>
      (\<forall>eltRV \<in> set rvs. isUsed eltRV) \<and>
      events = events0 @ [FinishInitialization tupleInit])"
proof
  assume "finish SGF (TupleInitializationResultPlan tupleInit eltInits eltPlans) substType
            directResults = Inr (rv, directResults', events)"
  then show "rv = RValueUsed \<and>
   (\<exists>substElts rvs events0.
      substType = SubstTuple substElts \<and> length substElts = length eltPlans \<and>
      finishEach SGF eltPlans substElts directResults = Inr (rvs, directResults', events0) \<and>
      (\<forall>eltRV \<in> set rvs. isUsed eltRV) \<and>
      events = events0 @ [FinishInitialization tupleInit])"
    by (elim finish_TupleInitialization_Inr) blast
next
  assume "rv = RValueUsed \<and>
   (\<exists>substElts rvs events0.
      substType = SubstTuple substElts \<and> length substElts = length eltPlans \<and>
      finishEach SGF eltPlans substElts directResults = Inr (rvs, directResults', events0) \<and>
      (\<forall>eltRV \<in> set rvs. isUsed eltRV) \<and>
      events = events0 @ [FinishInitialization tupleInit])"
  then obtain substElts rvs events0 where
    h: "rv = RValueUsed" "substType = SubstTuple substElts" "length substElts = length eltPlans"
      "finishEach SGF eltPlans substElts directResults = Inr (rvs, directResults', events0)"
      "\<forall>eltRV \<in> set rvs. isUsed eltRV" "events = events0 @ [FinishInitialization tupleInit]"
    by blast
  from TupleInitializationResultPlan_elements_intro [OF h(4,3,5)] h
  show "finish SGF (TupleInitializationResultPlan tupleInit eltInits eltPlans) substType
          directResults = Inr (rv, directResults', events)"
    by simp
qed

theorem C6_witness:
  "finish exampleSGF
     (TupleInitializationResultPlan (CallerInit 0)
        [TupleElementInit (CallerInit 0) 0, TupleElementInit (CallerInit 0) 1]
        [InPlaceInitializationResultPlan (TupleElementInit (CallerInit 0) 0),
         ScalarResultPlan None (OrigOpaque 1) (Some (TupleElementInit (CallerInit 0) 1)) Thick])
     exampleSubst exampleDirect =
   Inr (RValueUsed, [],
        [FinishInitialization (TupleElementInit (CallerInit 0) 0),
         TakeDirectResult (Value 7 (SILType 2 Object)),
         CopyOrInitValueInto (TupleElementInit (CallerInit 0) 1) (Value 7 (SILType 2 Object)),
         FinishInitialization (TupleElementInit (CallerInit 0) 1)] @
        [FinishInitialization (CallerInit 0)]) \<and>
   finishEach exampleSGF
     [InPlaceInitializationResultPlan (TupleElementInit (CallerInit 0) 0),
      ScalarResultPlan None (OrigOpaque 1) (Some (TupleElementInit (CallerInit 0) 1)) Thick]
     [SubstScalar 1, SubstScalar 2] exampleDirect =
   Inr ([RValueUsed, RValueUsed], [],
        [FinishInitialization (TupleElementInit (CallerInit 0) 0),
         TakeDirectResult (Value 7 (SILType 2 Object)),
         CopyOrInitValueInto (TupleElementInit (CallerInit 0) 1) (Value 7 (SILType 2 Object)),
         FinishInitialization (TupleElementInit (CallerInit 0) 1)])"
proof -
  let ?plans = "[InPlaceInitializationResultPlan (TupleElementInit (CallerInit 0) 0),
      ScalarResultPlan None (OrigOpaque 1) (Some (TupleElementInit (CallerInit 0) 1)) Thick]"
  let ?evs = "[FinishInitialization (TupleElementInit (CallerInit 0) 0),
         TakeDirectResult (Value 7 (SILType 2 Object)),
         CopyOrInitValueInto (TupleElementInit (CallerInit 0) 1) (Value 7 (SILType 2 Object)),
         FinishInitialization (TupleElementInit (CallerInit 0) 1)]"
  have e: "finishEach exampleSGF ?plans [SubstScalar 1, SubstScalar 2] exampleDirect =
      Inr ([RValueUsed, RValueUsed], [], ?evs)"
    by (simp add: exampleSGF_def exampleDirect_def ScalarResultPlan_finish_def
          ScalarResultPlan_claim_def ScalarResultPlan_store_def Let_def)
  have "RValueUsed = RValueUsed \<and>
   (\<exists>substElts rvs events0.
      exampleSubst = SubstTuple substElts \<and> length substElts = length ?plans \<and>
      finishEach exampleSGF ?plans substElts exampleDirect = Inr (rvs, [], events0) \<and>
      (\<forall>eltRV \<in> set rvs. isUsed eltRV) \<and>
      ?evs @ [FinishInitialization (CallerInit 0)] = events0 @ [FinishInitialization (CallerInit 0)])"
    using e by (simp add: exampleSubst_def)
  then have "finish exampleSGF
     (TupleInitializationResultPlan (CallerInit 0)
        [TupleElementInit (CallerInit 0) 0, TupleElementInit (CallerInit 0) 1] ?plans)
     exampleSubst exampleDirect =
     Inr (RValueUsed, [], ?evs @ [FinishInitialization (CallerInit 0)])"
    by (simp only: C6_tuple_initialization_order)
  with e show ?thesis by simp
qed

subsection \<open>Finishing: destinations finalized and values returned\<close>

lemma finalized_append [simp]: "finalized (xs @ ys) = finalized xs @ finalized ys"
  by (simp add: finalized_def)

lemma finalized_Nil [simp]: "finalized [] = []"
  by (simp add: finalized_def)







lemma ScalarResultPlan_finish_Inr:
  assumes "ScalarResultPlan_finish SGF temporary orig init rp t ds = Inr (rv, ds', evs)"
  obtains (same) val claimed where
      "ScalarResultPlan_claim SGF temporary t ds = Inr (val, ds', claimed)"
      "\<not> hasAbstractionDifference SGF (getType val) rp (getLoweredType SGF t)"
      "rv = fst (ScalarResultPlan_store init t val)"
      "evs = claimed @ snd (ScalarResultPlan_store init t val)"
  | (bridged) val claimed where
      "ScalarResultPlan_claim SGF temporary t ds = Inr (val, ds', claimed)"
      "hasAbstractionDifference SGF (getType val) rp (getLoweredType SGF t)"
      "getSILFunctionLanguage rp = C"
      "rv = fst (ScalarResultPlan_store init t (emitBridgedToNativeValue SGF val rp t))"
      "evs = claimed @ [EmitBridgedToNativeValue val rp t] @
             snd (ScalarResultPlan_store init t (emitBridgedToNativeValue SGF val rp t))"
  | (inContext) val claimed where
      "ScalarResultPlan_claim SGF temporary t ds = Inr (val, ds', claimed)"
      "hasAbstractionDifference SGF (getType val) rp (getLoweredType SGF t)"
      "getSILFunctionLanguage rp \<noteq> C"
      "emitOrigToSubstValue SGF val orig t init = InContext"
      "rv = RValueUsed"
      "evs = claimed @ [EmitOrigToSubstValue val orig t init InContext]"
  | (managed) val claimed w where
      "ScalarResultPlan_claim SGF temporary t ds = Inr (val, ds', claimed)"
      "hasAbstractionDifference SGF (getType val) rp (getLoweredType SGF t)"
      "getSILFunctionLanguage rp \<noteq> C"
      "emitOrigToSubstValue SGF val orig t init = Managed w"
      "rv = fst (ScalarResultPlan_store init t w)"
      "evs = claimed @ [EmitOrigToSubstValue val orig t init (Managed w)] @
             snd (ScalarResultPlan_store init t w)"
proof -
  from assms obtain val claimed where
    c: "ScalarResultPlan_claim SGF temporary t ds = Inr (val, ds', claimed)"
    by (auto simp: ScalarResultPlan_finish_def Let_def
             split: sum.splits if_splits prod.splits ManagedValue.splits)
  show ?thesis
  proof (cases "hasAbstractionDifference SGF (getType val) rp (getLoweredType SGF t)")
    case False
    with assms c show ?thesis
      by (intro same [of val claimed])
         (simp_all add: ScalarResultPlan_finish_def split: prod.splits)
  next
    case True
    show ?thesis
    proof (cases "getSILFunctionLanguage rp = C")
      case C: True
      with assms c True show ?thesis
        by (intro bridged [of val claimed])
           (simp_all add: ScalarResultPlan_finish_def split: prod.splits)
    next
      case False
      show ?thesis
      proof (cases "emitOrigToSubstValue SGF val orig t init")
        case InContext
        with assms c True False show ?thesis
          by (intro inContext [of val claimed])
             (simp_all add: ScalarResultPlan_finish_def Let_def)
      next
        case (Managed w)
        with assms c True False show ?thesis
          by (intro managed [of val claimed w])
             (simp_all add: ScalarResultPlan_finish_def Let_def split: prod.splits)
      qed
    qed
  qed
qed




text \<open>Used r-values and the number of values.\<close>

lemma ScalarResultPlan_store_result:
  "fst (ScalarResultPlan_store init t v) =
     (case init of None \<Rightarrow> RValue t [v] | Some i \<Rightarrow> RValueUsed)"
  by (simp add: ScalarResultPlan_store_def split: option.splits)

lemma ScalarResultPlan_finish_result:
  assumes "ScalarResultPlan_finish SGF temporary orig init rp t ds = Inr (rv, ds', evs)"
  shows "(init \<noteq> None \<longrightarrow> rv = RValueUsed) \<and>
         (init = None \<longrightarrow> contextContract SGF \<longrightarrow> (\<exists>v. rv = RValue t [v]))"
  using assms
proof (cases rule: ScalarResultPlan_finish_Inr)
  case (inContext val claimed)
  then show ?thesis by (auto simp: contextContract_def)
qed (auto simp: ScalarResultPlan_store_result)

lemma finish_returnsUsed:
  "finish SGF plan t ds = Inr (rv, ds', evs) \<Longrightarrow> returnsUsed plan \<Longrightarrow> rv = RValueUsed"
proof (cases plan)
  case (ScalarResultPlan temporary orig init rp)
  assume "finish SGF plan t ds = Inr (rv, ds', evs)" "returnsUsed plan"
  with ScalarResultPlan show ?thesis
    by (cases init) (auto dest: ScalarResultPlan_finish_result)
qed (auto split: sum.splits if_splits CanType.splits)



subsection \<open>Defects abort, and a well-formed call reaches none of them\<close>

lemma ScalarResultPlan_finish_total:
  assumes "temporary = None \<longrightarrow> ds \<noteq> []"
  shows "\<exists>rv ds' evs. ScalarResultPlan_finish SGF temporary orig init rp t ds = Inr (rv, ds', evs)"
proof -
  from assms have "\<exists>val ds1 claimed.
      ScalarResultPlan_claim SGF temporary t ds = Inr (val, ds1, claimed)"
    by (cases temporary; cases ds) (simp_all add: ScalarResultPlan_claim_def Let_def)
  then obtain val ds1 claimed where
    c: "ScalarResultPlan_claim SGF temporary t ds = Inr (val, ds1, claimed)"
    by blast
  show ?thesis
    by (cases "emitOrigToSubstValue SGF val orig t init")
       (simp_all add: ScalarResultPlan_finish_def c Let_def split: prod.splits)
qed


lemma scalar_leaf_finishes:
  assumes "contextContract SGF" and "directCount (ScalarResultPlan temporary orig init rp) \<le> length ds"
  shows "\<exists>rv ds' evs. finish SGF (ScalarResultPlan temporary orig init rp) t ds = Inr (rv, ds', evs) \<and>
           (isUsed rv \<longleftrightarrow> init \<noteq> None)"
proof -
  from assms(2) have "temporary = None \<longrightarrow> ds \<noteq> []" by auto
  from ScalarResultPlan_finish_total [OF this] obtain rv ds' evs where
    f: "ScalarResultPlan_finish SGF temporary orig init rp t ds = Inr (rv, ds', evs)"
    by blast
  from ScalarResultPlan_finish_result [OF f] assms(1)
  have "isUsed rv \<longleftrightarrow> init \<noteq> None" by (cases init) auto
  with f show ?thesis by simp
qed

lemma build_finishes:
  "build SGF init orig subst b = Inr (plan, b') \<Longrightarrow> contextContract SGF \<Longrightarrow>
     directCount plan \<le> length ds \<Longrightarrow>
     \<exists>rv ds' evs. finish SGF plan subst ds = Inr (rv, ds', evs) \<and> (isUsed rv \<longleftrightarrow> init \<noteq> None)"
  "buildForTuple SGF init orig substElts b = Inr (plan, b') \<Longrightarrow> contextContract SGF \<Longrightarrow>
     directCount plan \<le> length ds \<Longrightarrow>
     \<exists>rv ds' evs. finish SGF plan (SubstTuple substElts) ds = Inr (rv, ds', evs) \<and>
        (isUsed rv \<longleftrightarrow> init \<noteq> None)"
  "buildElements SGF eltInits orig substElts i b = Inr (plans, b') \<Longrightarrow> contextContract SGF \<Longrightarrow>
     sum_list (map directCount plans) \<le> length ds \<Longrightarrow>
     length plans = length (drop i substElts) \<and>
     (\<exists>rvs ds' evs. finishEach SGF plans (drop i substElts) ds = Inr (rvs, ds', evs) \<and>
        (\<forall>rv \<in> set rvs. isUsed rv \<longleftrightarrow> eltInits \<noteq> None))"
proof (induction SGF init orig subst b and SGF init orig substElts b
         and SGF eltInits orig substElts i b
       arbitrary: plan b' ds and plan b' ds and plans b' ds
       rule: build_buildForTuple_buildElements.induct)
  case (1 SGF init os substType b)
  then show ?case by (cases substType) (auto simp: build_tuple)
next
  case (2 SGF init n substType b)
  from "2.prems"(1) show ?case
  proof (cases rule: build_leaf_Inr)
    case (1 result rest a i)
    then show ?thesis by simp
  next
    case (2 result rest)
    from "2.prems"(3) 2 have "directCount (ScalarResultPlan
        (Some (TemporaryInitialization (nextTemporary b) (getLoweredType SGF (resultType result))))
        (OrigOpaque n) init (rep b)) \<le> length ds"
      by simp
    from scalar_leaf_finishes [OF "2.prems"(2) this] 2 show ?thesis by simp
  next
    case (3 result rest)
    from "2.prems"(3) 3 have "directCount (ScalarResultPlan None (OrigOpaque n) init (rep b))
        \<le> length ds"
      by simp
    from scalar_leaf_finishes [OF "2.prems"(2) this] 3 show ?thesis by simp
  qed
next
  case (3 SGF origType substElts b)
  from "3.prems"(1) obtain plans where
    e: "buildElements SGF None origType substElts 0 b = Inr (plans, b')" and
    p: "plan = TupleRValueResultPlan plans"
    by (auto simp: buildForTuple_None split: sum.splits)
  from "3.prems"(3) p have "sum_list (map directCount plans) \<le> length ds" by simp
  from "3.IH" [OF e "3.prems"(2) this] obtain rvs ds' evs where
    l: "length plans = length substElts" and
    f: "finishEach SGF plans substElts ds = Inr (rvs, ds', evs)" and
    u: "\<forall>rv \<in> set rvs. \<not> isUsed rv"
    by auto
  from TupleRValueResultPlan_elements_intro [OF f l [symmetric] u, of "SubstTuple substElts" "[]"] l p
  show ?case by simp
next
  case (4 SGF init origType substElts b)
  let ?temp = "TemporaryInitialization (nextTemporary b) (getLoweredType SGF (SubstTuple substElts))"
  let ?b1 = "b\<lparr>nextTemporary := Suc (nextTemporary b)\<rparr>"
  have em: "(?temp, ?b1) = emitTemporary b (getLoweredType SGF (SubstTuple substElts))"
    by (simp add: emitTemporary_def)
  show ?case
  proof (cases "canSplitIntoTupleElements SGF init")
    case True
    with "4.prems"(1) obtain plans where
      e: "buildElements SGF (Some (splitIntoTupleElements init substElts)) origType substElts 0 b =
            Inr (plans, b')" and
      p: "plan = TupleInitializationResultPlan init (splitIntoTupleElements init substElts) plans"
      by (auto simp: buildForTuple_Some split: sum.splits)
    from "4.prems"(3) p have "sum_list (map directCount plans) \<le> length ds" by simp
    from "4.IH"(1) [OF True refl e "4.prems"(2) this] obtain rvs ds' evs where
      l: "length plans = length substElts" and
      f: "finishEach SGF plans substElts ds = Inr (rvs, ds', evs)" and
      u: "\<forall>rv \<in> set rvs. isUsed rv"
      by auto
    from TupleInitializationResultPlan_elements_intro [OF f l [symmetric] u] l p
    show ?thesis by simp
  next
    case False
    show ?thesis
    proof (cases "isAddressOnly SGF (SubstTuple substElts)")
      case True
      with False "4.prems"(1) obtain sub where
        s: "buildForTuple SGF (Some (TemporaryInit ?temp)) origType substElts ?b1 = Inr (sub, b')"
        and p: "plan = InitValueFromTemporaryResultPlan init sub ?temp"
        by (auto simp: buildForTuple_Some split: sum.splits)
      from "4.prems"(3) p have "directCount sub \<le> length ds" by simp
      from "4.IH"(2) [OF False True refl em s "4.prems"(2) this] obtain rv ds' evs where
        "finish SGF sub (SubstTuple substElts) ds = Inr (rv, ds', evs)" "isUsed rv"
        by auto
      with p show ?thesis by simp
    next
      case F2: False
      with False "4.prems"(1) obtain sub where
        s: "buildForTuple SGF None origType substElts b = Inr (sub, b')"
        and p: "plan = InitValueFromRValueResultPlan init sub"
        by (auto simp: buildForTuple_Some split: sum.splits)
      from s obtain plans where tp: "sub = TupleRValueResultPlan plans"
        by (auto simp: buildForTuple_None split: sum.splits)
      from "4.prems"(3) p have "directCount sub \<le> length ds" by simp
      from "4.IH"(3) [OF False F2 s "4.prems"(2) this] obtain rv ds' evs where
        f: "finish SGF sub (SubstTuple substElts) ds = Inr (rv, ds', evs)"
        by auto
      from f [unfolded tp] obtain vs where "rv = RValue (SubstTuple substElts) vs"
        by (elim finish_TupleRValue_Inr) simp
      with f p show ?thesis by simp
    qed
  qed
next
  case (5 SGF eltInits origType substElts i b)
  from "5.prems"(1) show ?case
  proof (cases rule: buildElements_Inr)
    case 1
    then show ?thesis by simp
  next
    case (2 origEltType eltInit eltPlan b1 eltPlans)
    from 2 have d: "drop i substElts = substElts ! i # drop (Suc i) substElts"
      by (simp add: Cons_nth_drop_Suc)
    from "5.prems"(3) 2 have c1: "directCount eltPlan \<le> length ds" by simp
    from "5.IH"(1) [OF 2(1,2,3,4) "5.prems"(2) c1] obtain rv1 ds1 evs1 where
      f1: "finish SGF eltPlan (substElts ! i) ds = Inr (rv1, ds1, evs1)" and
      u1: "isUsed rv1 \<longleftrightarrow> eltInit \<noteq> None"
      by auto
    from finish_cursor [OF f1] have "length ds = directCount eltPlan + length ds1"
      by (metis length_append)
    with "5.prems"(3) 2 have c2: "sum_list (map directCount eltPlans) \<le> length ds1" by simp
    from "5.IH"(2) [OF 2(1,2,3,4) refl 2(5) "5.prems"(2) c2] obtain rvs ds' evs where
      l: "length eltPlans = length (drop (Suc i) substElts)" and
      f2: "finishEach SGF eltPlans (drop (Suc i) substElts) ds1 = Inr (rvs, ds', evs)" and
      u2: "\<forall>rv \<in> set rvs. isUsed rv \<longleftrightarrow> eltInits \<noteq> None"
      by auto
    from 2(3) have "eltInit \<noteq> None \<longleftrightarrow> eltInits \<noteq> None"
      by (auto simp: eltInitAt_def split: option.splits if_splits)
    with u1 u2 f1 f2 l d 2(6) show ?thesis by simp
  qed
qed

lemma TupleInitializationResultPlan_elements_unused:
  assumes "length pre = length tpre"
    and "finishEach SGF pre tpre ds = Inr (rvs, ds1, evs1)"
    and "\<forall>rv \<in> set rvs. isUsed rv"
    and "finish SGF p t ds1 = Inr (rv, ds2, evs2)"
    and "\<not> isUsed rv"
  shows "TupleInitializationResultPlan_elements SGF (pre @ p # post) (tpre @ t # tpost) ds =
           Inl SubPlanDidNotEmitIntoContext"
  using assms
proof (induction pre tpre arbitrary: ds rvs evs1 rule: list_induct2)
  case Nil
  then show ?case by simp
next
  case (Cons q pre u tpre)
  from Cons.prems(1) obtain rvq dsq evsq rvs' evs' where
    f: "finish SGF q u ds = Inr (rvq, dsq, evsq)" and
    r: "finishEach SGF pre tpre dsq = Inr (rvs', ds1, evs')" and
    e: "rvs = rvq # rvs'"
    by (auto split: sum.splits)
  from Cons.prems(2) e have u: "isUsed rvq" "\<forall>rv \<in> set rvs'. isUsed rv" by simp_all
  from Cons.IH [OF r u(2) Cons.prems(3,4)] f u(1) show ?case by simp
qed

text \<open>
  C9.  The violations of what the pipeline establishes end the run with an
  error, which nothing catches: a tuple pattern against a substituted type that
  is not a tuple, an empty descriptor queue at a non-tuple leaf, no direct
  result left when a scalar node without temporary finishes, and a sub-plan of
  an initialization from a temporary, or an element plan of a tuple
  initialization, that returns an r-value that is not used.  When the
  substituted type mirrors the pattern, the queue holds a descriptor for every
  leaf, the reabstraction emits into a context only when given one, and the
  direct results hold a value for every direct descriptor taken, then both
  building and finishing return a result: none of the errors is reached.
\<close>

theorem C9_defects_abort_and_are_unreachable:
  "build SGF init (OrigTuple os) (SubstScalar k) b = Inl CastToTupleTypeFailed \<and>
   (allResults b = [] \<longrightarrow> build SGF init (OrigOpaque n) subst b = Inl AllResultsEmpty) \<and>
   finish SGF (ScalarResultPlan None origType init rp) subst [] = Inl DirectResultsEmpty \<and>
   (finish SGF subPlan subst directResults = Inr (subResult, directResults1, events1) \<and>
    \<not> isUsed subResult \<longrightarrow>
      finish SGF (InitValueFromTemporaryResultPlan tupleInit subPlan temporary) subst directResults =
        Inl SubPlanDidNotEmitIntoContext) \<and>
   (length pre = length tpre \<and> length post = length tpost \<and>
    finishEach SGF pre tpre directResults = Inr (rvs, directResults1, events1) \<and>
    (\<forall>eltRV \<in> set rvs. isUsed eltRV) \<and>
    finish SGF eltPlan eltType directResults1 = Inr (eltRV, directResults2, events2) \<and>
    \<not> isUsed eltRV \<longrightarrow>
      finish SGF (TupleInitializationResultPlan tupleInit eltInits (pre @ eltPlan # post))
        (SubstTuple (tpre @ eltType # tpost)) directResults =
        Inl SubPlanDidNotEmitIntoContext) \<and>
   (mirrors orig subst \<and> length (leaves orig) \<le> length (allResults b) \<and>
    contextContract SGF \<and>
    length (filter (\<lambda>r. \<not> isSILIndirect r) (take (length (leaves orig)) (allResults b)))
      \<le> length directResults \<longrightarrow>
      (\<exists>plan b' rv directResults' events.
         build SGF init orig subst b = Inr (plan, b') \<and>
         finish SGF plan subst directResults = Inr (rv, directResults', events)))"
proof (intro conjI impI)
  show "build SGF init (OrigTuple os) (SubstScalar k) b = Inl CastToTupleTypeFailed"
    by (rule build_tuple(2))
next
  assume "allResults b = []"
  then show "build SGF init (OrigOpaque n) subst b = Inl AllResultsEmpty"
    by (simp add: build.simps)
next
  show "finish SGF (ScalarResultPlan None origType init rp) subst [] = Inl DirectResultsEmpty"
    by (simp add: ScalarResultPlan_finish_def ScalarResultPlan_claim_def)
next
  assume "finish SGF subPlan subst directResults = Inr (subResult, directResults1, events1) \<and>
    \<not> isUsed subResult"
  then show "finish SGF (InitValueFromTemporaryResultPlan tupleInit subPlan temporary) subst
      directResults = Inl SubPlanDidNotEmitIntoContext"
    by simp
next
  assume a: "length pre = length tpre \<and> length post = length tpost \<and>
    finishEach SGF pre tpre directResults = Inr (rvs, directResults1, events1) \<and>
    (\<forall>eltRV \<in> set rvs. isUsed eltRV) \<and>
    finish SGF eltPlan eltType directResults1 = Inr (eltRV, directResults2, events2) \<and>
    \<not> isUsed eltRV"
  then have "TupleInitializationResultPlan_elements SGF (pre @ eltPlan # post)
      (tpre @ eltType # tpost) directResults = Inl SubPlanDidNotEmitIntoContext"
    by (intro TupleInitializationResultPlan_elements_unused) blast+
  with a show "finish SGF (TupleInitializationResultPlan tupleInit eltInits (pre @ eltPlan # post))
        (SubstTuple (tpre @ eltType # tpost)) directResults =
        Inl SubPlanDidNotEmitIntoContext"
    by simp
next
  assume a: "mirrors orig subst \<and> length (leaves orig) \<le> length (allResults b) \<and>
    contextContract SGF \<and>
    length (filter (\<lambda>r. \<not> isSILIndirect r) (take (length (leaves orig)) (allResults b)))
      \<le> length directResults"
  then obtain plan b' where bl: "build SGF init orig subst b = Inr (plan, b')"
    using build_total(1) by blast
  from a build_balance(3) [OF _ bl] have "directCount plan \<le> length directResults" by simp
  from build_finishes(1) [OF bl _ this] a bl
  show "\<exists>plan b' rv directResults' events.
         build SGF init orig subst b = Inr (plan, b') \<and>
         finish SGF plan subst directResults = Inr (rv, directResults', events)"
    by blast
qed

theorem C9_witness:
  "build exampleSGF None exampleOrig (SubstScalar 1) exampleBuilder = Inl CastToTupleTypeFailed \<and>
   build exampleSGF None (OrigOpaque 0) (SubstScalar 1) (exampleBuilder\<lparr>allResults := []\<rparr>) =
     Inl AllResultsEmpty \<and>
   finish exampleSGF
     (InitValueFromTemporaryResultPlan (CallerInit 0) (ScalarResultPlan None (OrigOpaque 1) None Thick)
        (TemporaryInitialization 0 (SILType 2 Object)))
     (SubstScalar 2) exampleDirect = Inl SubPlanDidNotEmitIntoContext \<and>
   finish exampleSGF
     (TupleInitializationResultPlan (CallerInit 0) [TupleElementInit (CallerInit 0) 0]
        [ScalarResultPlan None (OrigOpaque 1) None Thick])
     (SubstTuple [SubstScalar 2]) exampleDirect = Inl SubPlanDidNotEmitIntoContext \<and>
   (\<exists>plan b' rv directResults' events.
      build exampleSGF (Some (CallerInit 0)) exampleOrig exampleSubst exampleBuilder =
        Inr (plan, b') \<and>
      finish exampleSGF plan exampleSubst exampleDirect = Inr (rv, directResults', events))"
proof -
  let ?leaf = "ScalarResultPlan None (OrigOpaque 1) None Thick"
  let ?v = "Value 7 (SILType 2 Object)"
  have f: "finish exampleSGF ?leaf (SubstScalar 2) exampleDirect =
      Inr (RValue (SubstScalar 2) [?v], [], [TakeDirectResult ?v])"
    by (simp add: exampleSGF_def exampleDirect_def ScalarResultPlan_finish_def
          ScalarResultPlan_claim_def ScalarResultPlan_store_def Let_def)
  have e: "finishEach exampleSGF [] [] exampleDirect = Inr ([], exampleDirect, [])" by simp
  have c: "contextContract exampleSGF"
    by (simp add: contextContract_def exampleSGF_def)
  have d: "length (filter (\<lambda>r. \<not> isSILIndirect r)
      (take (length (leaves exampleOrig)) (allResults exampleBuilder))) \<le> length exampleDirect"
    "length (leaves exampleOrig) \<le> length (allResults exampleBuilder)"
    "allResults (exampleBuilder\<lparr>allResults := []\<rparr>) = []"
    by (simp_all add: exampleOrig_def exampleBuilder_def exampleDirect_def)
  note t = C9_defects_abort_and_are_unreachable
  from t [where SGF = exampleSGF and init = None and os = "[OrigOpaque 0, OrigOpaque 1]"
            and k = 1 and b = exampleBuilder, THEN conjunct1]
  have 1: "build exampleSGF None exampleOrig (SubstScalar 1) exampleBuilder =
      Inl CastToTupleTypeFailed"
    by (simp add: exampleOrig_def)
  from t [where SGF = exampleSGF and init = None and n = 0 and subst = "SubstScalar 1"
            and b = "exampleBuilder\<lparr>allResults := []\<rparr>",
          THEN conjunct2, THEN conjunct1] d(3)
  have 2: "build exampleSGF None (OrigOpaque 0) (SubstScalar 1)
      (exampleBuilder\<lparr>allResults := []\<rparr>) = Inl AllResultsEmpty"
    by simp
  from t [where SGF = exampleSGF and subst = "SubstScalar 2" and subPlan = ?leaf
            and directResults = exampleDirect and subResult = "RValue (SubstScalar 2) [?v]"
            and ?directResults1.0 = "[]" and ?events1.0 = "[TakeDirectResult ?v]"
            and tupleInit = "CallerInit 0"
            and temporary = "TemporaryInitialization 0 (SILType 2 Object)",
          THEN conjunct2, THEN conjunct2, THEN conjunct2, THEN conjunct1] f
  have 3: "finish exampleSGF
     (InitValueFromTemporaryResultPlan (CallerInit 0) ?leaf
        (TemporaryInitialization 0 (SILType 2 Object)))
     (SubstScalar 2) exampleDirect = Inl SubPlanDidNotEmitIntoContext"
    by simp
  from t [where SGF = exampleSGF and pre = "[]" and tpre = "[]" and post = "[]" and tpost = "[]"
            and directResults = exampleDirect and rvs = "[]" and ?directResults1.0 = exampleDirect
            and ?events1.0 = "[]" and eltPlan = ?leaf and eltType = "SubstScalar 2"
            and eltRV = "RValue (SubstScalar 2) [?v]" and ?directResults2.0 = "[]"
            and ?events2.0 = "[TakeDirectResult ?v]" and tupleInit = "CallerInit 0"
            and eltInits = "[TupleElementInit (CallerInit 0) 0]",
          THEN conjunct2, THEN conjunct2, THEN conjunct2, THEN conjunct2, THEN conjunct1] f
  have 4: "finish exampleSGF
     (TupleInitializationResultPlan (CallerInit 0) [TupleElementInit (CallerInit 0) 0] [?leaf])
     (SubstTuple [SubstScalar 2]) exampleDirect = Inl SubPlanDidNotEmitIntoContext"
    by simp
  from t [where SGF = exampleSGF and init = "Some (CallerInit 0)" and b = exampleBuilder
            and subst = exampleSubst and directResults = exampleDirect and orig = exampleOrig,
          THEN conjunct2, THEN conjunct2, THEN conjunct2, THEN conjunct2, THEN conjunct2]
       example_mirrors c d(1,2)
  have 5: "\<exists>plan b' rv directResults' events.
      build exampleSGF (Some (CallerInit 0)) exampleOrig exampleSubst exampleBuilder =
        Inr (plan, b') \<and>
      finish exampleSGF plan exampleSubst exampleDirect = Inr (rv, directResults', events)"
    by simp
  from 1 2 3 4 5 show ?thesis by blast
qed

subsection \<open>Building: the destinations held by the nodes are pairwise different\<close>

lemma under_refl [simp]: "under a a"
  by (cases a) simp_all








lemma fresh_element [simp]: "fresh lo (TupleElementInit d j) = fresh lo d"
  by (simp add: fresh_def)





lemma ownedInits_Nil [simp]: "ownedInits owners lo hi [] \<longleftrightarrow> lo \<le> hi"
  by (simp add: ownedInits_def)












subsection \<open>Counting the destinations and the values of a plan\<close>



lemma concat_concat_map: "concat (concat (map f xs)) = concat (map (\<lambda>x. concat (f x)) xs)"
  by (induction xs) simp_all

lemma leafInits_simps [simp]:
  "leafInits (InPlaceInitializationResultPlan i) = [i]"
  "leafInits (ScalarResultPlan temporary orig init rp) = (case init of None \<Rightarrow> [] | Some i \<Rightarrow> [i])"
  "leafInits (InitValueFromTemporaryResultPlan i sub tmp) = leafInits sub"
  "leafInits (InitValueFromRValueResultPlan i sub) = leafInits sub"
  "leafInits (TupleRValueResultPlan ps) = concat (map leafInits ps)"
  "leafInits (TupleInitializationResultPlan i eis ps) = concat (map leafInits ps)"
  by (simp_all add: leafInits_def [abs_def] map_concat comp_def concat_concat_map
        split: option.splits)



lemma build_without_destination:
  "build SGF init orig subst b = Inr (plan, b') \<Longrightarrow> init = None \<Longrightarrow>
     \<not> returnsUsed plan \<and> valueCount plan = length (planLeaves plan) \<and> leafInits plan = []"
  "buildForTuple SGF init orig substElts b = Inr (plan, b') \<Longrightarrow> init = None \<Longrightarrow>
     \<not> returnsUsed plan \<and> valueCount plan = length (planLeaves plan) \<and> leafInits plan = []"
  "buildElements SGF eltInits orig substElts i b = Inr (plans, b') \<Longrightarrow> eltInits = None \<Longrightarrow>
     sum_list (map valueCount plans) = length (concat (map planLeaves plans)) \<and>
     concat (map leafInits plans) = []"
proof (induction SGF init orig subst b and SGF init orig substElts b
         and SGF eltInits orig substElts i b
       arbitrary: plan b' and plan b' and plans b'
       rule: build_buildForTuple_buildElements.induct)
  case (1 SGF init os substType b)
  then show ?case by (cases substType) (auto simp: build_tuple)
next
  case (2 SGF init n substType b)
  from "2.prems"(1) show ?case
  proof (cases rule: build_leaf_Inr)
    case (1 result rest a i)
    with "2.prems"(2) show ?thesis by simp
  next
    case (2 result rest)
    with "2.prems"(2) show ?thesis by simp
  next
    case (3 result rest)
    with "2.prems"(2) show ?thesis by simp
  qed
next
  case (3 SGF origType substElts b)
  from "3.prems"(1) obtain plans where
    e: "buildElements SGF None origType substElts 0 b = Inr (plans, b')" and
    p: "plan = TupleRValueResultPlan plans"
    by (auto simp: buildForTuple_None split: sum.splits)
  from "3.IH" [OF e refl] p show ?case by (simp add: length_concat comp_def)
next
  case (4 SGF init origType substElts b)
  then show ?case by simp
next
  case (5 SGF eltInits origType substElts i b)
  from "5.prems"(1) show ?case
  proof (cases rule: buildElements_Inr)
    case 1
    then show ?thesis by simp
  next
    case (2 origEltType eltInit eltPlan b1 eltPlans)
    from 2(3) "5.prems"(2) have n: "eltInit = None" by (simp add: eltInitAt_def)
    from "5.IH"(1) [OF 2(1,2,3,4) n] "5.IH"(2) [OF 2(1,2,3,4) refl 2(5) "5.prems"(2)] 2(6)
    show ?thesis by simp
  qed
qed




subsection \<open>The order of building and of finishing\<close>

lemma eltInitList_nth:
  assumes "eltInitsFit eltInits ts" and "i < length ts"
  shows "eltInitAt eltInits i = Inr (eltInitList eltInits ts ! i)"
    and "length (eltInitList eltInits ts) = length ts"
  using assms
  by (auto simp: eltInitsFit_def eltInitAt_def eltInitList_def split: option.splits)

lemma eltInitList_length:
  "eltInitsFit eltInits ts \<Longrightarrow> length (eltInitList eltInits ts) = length ts"
  by (auto simp: eltInitsFit_def eltInitList_def split: option.splits)

lemma buildElements_buildEach:
  assumes "length os = length ts" and "eltInitsFit eltInits ts" and "i \<le> length ts"
  shows "buildElements SGF eltInits (OrigTuple os) ts i b =
           buildEach SGF (drop i (eltInitList eltInits ts)) (drop i os) (drop i ts) b"
  using assms(3)
proof (induction "length ts - i" arbitrary: i b)
  case 0
  with assms(1,2) show ?case
    by (subst buildElements_unfold) (simp add: eltInitList_length)
next
  case (Suc n)
  then have i: "i < length ts" by simp
  note l = eltInitList_nth [OF assms(2) i]
  from i assms(1) l(2) have d:
    "drop i ts = ts ! i # drop (Suc i) ts"
    "drop i os = os ! i # drop (Suc i) os"
    "drop i (eltInitList eltInits ts) =
       eltInitList eltInits ts ! i # drop (Suc i) (eltInitList eltInits ts)"
    by (simp_all add: Cons_nth_drop_Suc)
  from i assms(1) have io: "i < length os" by simp
  have ih: "buildElements SGF eltInits (OrigTuple os) ts (Suc i) b1 =
      buildEach SGF (drop (Suc i) (eltInitList eltInits ts)) (drop (Suc i) os)
        (drop (Suc i) ts) b1" for b1
    using Suc.hyps(1) [of "Suc i" b1] Suc.hyps(2) i by simp
  show ?case
  proof (cases "build SGF (eltInitList eltInits ts ! i) (os ! i) (ts ! i) b")
    case (Inl e)
    then show ?thesis
      by (subst buildElements_unfold) (simp add: i io l(1) d)
  next
    case (Inr r)
    obtain p b1 where "r = (p, b1)" by (cases r)
    with Inr show ?thesis
      by (subst buildElements_unfold) (simp add: i io l(1) d ih)
  qed
qed

lemma build_tuple_without_destination:
  assumes "length os = length ts"
  shows "build SGF None (OrigTuple os) (SubstTuple ts) b = Inr (plan, b') \<longleftrightarrow>
           (\<exists>plans. plan = TupleRValueResultPlan plans \<and>
              buildEach SGF (replicate (length ts) None) os ts b = Inr (plans, b'))"
proof -
  have "buildElements SGF None (OrigTuple os) ts 0 b =
      buildEach SGF (replicate (length ts) None) os ts b"
    using buildElements_buildEach [OF assms eltInitsFit_simps(1) le0]
    by (simp add: eltInitList_def)
  then show ?thesis
    by (auto simp: build_tuple buildForTuple_None split: sum.splits)
qed

lemma build_tuple_split_destination:
  assumes "length os = length ts" and "canSplitIntoTupleElements SGF d"
  shows "build SGF (Some d) (OrigTuple os) (SubstTuple ts) b = Inr (plan, b') \<longleftrightarrow>
           (\<exists>plans. plan = TupleInitializationResultPlan d
                              (map (TupleElementInit d) [0..<length ts]) plans \<and>
              buildEach SGF (map (\<lambda>i. Some (TupleElementInit d i)) [0..<length ts]) os ts b =
                Inr (plans, b'))"
proof -
  have "buildElements SGF (Some (splitIntoTupleElements d ts)) (OrigTuple os) ts 0 b =
      buildEach SGF (map (\<lambda>i. Some (TupleElementInit d i)) [0..<length ts]) os ts b"
    using buildElements_buildEach [OF assms(1) eltInitsFit_simps(2) le0, of SGF d b]
    by (simp add: eltInitList_def splitIntoTupleElements_def comp_def)
  with assms(2) show ?thesis
    by (auto simp: build_tuple buildForTuple_Some splitIntoTupleElements_def split: sum.splits)
qed

lemma finish_TupleRValue_iff:
  "finish SGF (TupleRValueResultPlan plans) t ds = Inr (rv, ds', evs) \<longleftrightarrow>
     (\<exists>ts rvs. t = SubstTuple ts \<and> length ts = length plans \<and>
        finishEach SGF plans ts ds = Inr (rvs, ds', evs) \<and> (\<forall>r \<in> set rvs. \<not> isUsed r) \<and>
        rv = RValue t (concat (map rvalueValues rvs)))"
proof
  assume "finish SGF (TupleRValueResultPlan plans) t ds = Inr (rv, ds', evs)"
  then show "\<exists>ts rvs. t = SubstTuple ts \<and> length ts = length plans \<and>
        finishEach SGF plans ts ds = Inr (rvs, ds', evs) \<and> (\<forall>r \<in> set rvs. \<not> isUsed r) \<and>
        rv = RValue t (concat (map rvalueValues rvs))"
    by (elim finish_TupleRValue_Inr) blast
next
  assume "\<exists>ts rvs. t = SubstTuple ts \<and> length ts = length plans \<and>
        finishEach SGF plans ts ds = Inr (rvs, ds', evs) \<and> (\<forall>r \<in> set rvs. \<not> isUsed r) \<and>
        rv = RValue t (concat (map rvalueValues rvs))"
  then obtain ts rvs where h: "t = SubstTuple ts" "length ts = length plans"
    "finishEach SGF plans ts ds = Inr (rvs, ds', evs)" "\<forall>r \<in> set rvs. \<not> isUsed r"
    "rv = RValue t (concat (map rvalueValues rvs))"
    by blast
  from TupleRValueResultPlan_elements_intro [OF h(3,2,4), of t "[]"] h
  show "finish SGF (TupleRValueResultPlan plans) t ds = Inr (rv, ds', evs)"
    by simp
qed

lemma finish_TupleInitialization_iff:
  "finish SGF (TupleInitializationResultPlan tupleInit eltInits plans) t ds = Inr (rv, ds', evs) \<longleftrightarrow>
     (\<exists>ts rvs evs0. t = SubstTuple ts \<and> length ts = length plans \<and>
        finishEach SGF plans ts ds = Inr (rvs, ds', evs0) \<and> (\<forall>r \<in> set rvs. isUsed r) \<and>
        rv = RValueUsed \<and> evs = evs0 @ [FinishInitialization tupleInit])"
proof
  assume "finish SGF (TupleInitializationResultPlan tupleInit eltInits plans) t ds =
      Inr (rv, ds', evs)"
  then show "\<exists>ts rvs evs0. t = SubstTuple ts \<and> length ts = length plans \<and>
        finishEach SGF plans ts ds = Inr (rvs, ds', evs0) \<and> (\<forall>r \<in> set rvs. isUsed r) \<and>
        rv = RValueUsed \<and> evs = evs0 @ [FinishInitialization tupleInit]"
    by (elim finish_TupleInitialization_Inr) blast
next
  assume "\<exists>ts rvs evs0. t = SubstTuple ts \<and> length ts = length plans \<and>
        finishEach SGF plans ts ds = Inr (rvs, ds', evs0) \<and> (\<forall>r \<in> set rvs. isUsed r) \<and>
        rv = RValueUsed \<and> evs = evs0 @ [FinishInitialization tupleInit]"
  then obtain ts rvs evs0 where h: "t = SubstTuple ts" "length ts = length plans"
    "finishEach SGF plans ts ds = Inr (rvs, ds', evs0)" "\<forall>r \<in> set rvs. isUsed r"
    "rv = RValueUsed" "evs = evs0 @ [FinishInitialization tupleInit]"
    by blast
  from TupleInitializationResultPlan_elements_intro [OF h(3,2,4)] h
  show "finish SGF (TupleInitializationResultPlan tupleInit eltInits plans) t ds =
      Inr (rv, ds', evs)"
    by simp
qed

lemma inLeafOrder_leaf:
  assumes "finish SGF p t ds = Inr (rv, ds', evs)"
  shows "inLeafOrder SGF [p] [t] ds ds' evs [rv]"
  using assms by (simp add: inLeafOrder_def)

lemma inLeafOrder_append:
  assumes "inLeafOrder SGF ls1 ts1 ds ds1 evs1 rvs1"
    and "inLeafOrder SGF ls2 ts2 ds1 ds' evs2 rvs2"
    and "length ls1 = length ts1"
  shows "inLeafOrder SGF (ls1 @ ls2) (ts1 @ ts2) ds ds' (evs1 @ evs2) (rvs1 @ rvs2)"
proof -
  from assms(1) obtain e1 where 1: "finishEach SGF ls1 ts1 ds = Inr (rvs1, ds1, e1)"
    "subseq e1 evs1" "filter leafOnly evs1 = filter leafOnly e1"
    by (auto simp: inLeafOrder_def)
  from assms(2) obtain e2 where 2: "finishEach SGF ls2 ts2 ds1 = Inr (rvs2, ds', e2)"
    "subseq e2 evs2" "filter leafOnly evs2 = filter leafOnly e2"
    by (auto simp: inLeafOrder_def)
  from 1(1) 2(1) assms(3)
  have "finishEach SGF (ls1 @ ls2) (ts1 @ ts2) ds = Inr (rvs1 @ rvs2, ds', e1 @ e2)"
    by (simp add: finishEach_append)
  moreover from 1(2) 2(2) have "subseq (e1 @ e2) (evs1 @ evs2)"
    by (rule list_emb_append_mono)
  moreover from 1(3) 2(3) have "filter leafOnly (evs1 @ evs2) = filter leafOnly (e1 @ e2)"
    by simp
  ultimately show ?thesis unfolding inLeafOrder_def by blast
qed

lemma inLeafOrder_snoc:
  assumes "inLeafOrder SGF ls ts ds ds' evs rvs" and "\<forall>e \<in> set extra. \<not> leafOnly e"
  shows "inLeafOrder SGF ls ts ds ds' (evs @ extra) rvs"
proof -
  from assms(1) obtain e1 where 1: "finishEach SGF ls ts ds = Inr (rvs, ds', e1)"
    "subseq e1 evs" "filter leafOnly evs = filter leafOnly e1"
    by (auto simp: inLeafOrder_def)
  from 1(2) have "subseq e1 (evs @ extra)" by (rule list_emb_prefix)
  moreover from assms(2) have "filter leafOnly extra = []" by (simp add: filter_empty_conv)
  with 1(3) have "filter leafOnly (evs @ extra) = filter leafOnly e1" by simp
  ultimately show ?thesis using 1(1) unfolding inLeafOrder_def by blast
qed

lemma finishEach_leaves:
  assumes "\<forall>p \<in> set ps. \<forall>t ds rv ds' evs. finish SGF p t ds = Inr (rv, ds', evs) \<longrightarrow>
             length (planLeafTypes p t) = length (planLeaves p) \<and>
             (\<exists>rvs. inLeafOrder SGF (planLeaves p) (planLeafTypes p t) ds ds' evs rvs \<and>
                (\<not> returnsUsed p \<longrightarrow> rvalueValues rv = concat (map rvalueValues rvs)))"
    and "finishEach SGF ps ts ds = Inr (rvs, ds', evs)"
    and "length ts = length ps"
  shows "length (planLeafTypesElements ps ts) = length (concat (map planLeaves ps)) \<and>
         (\<exists>rvs'. inLeafOrder SGF (concat (map planLeaves ps)) (planLeafTypesElements ps ts)
                    ds ds' evs rvs' \<and>
            ((\<forall>r \<in> set rvs. \<not> isUsed r) \<longrightarrow>
               concat (map rvalueValues rvs) = concat (map rvalueValues rvs')))"
  using assms
proof (induction ps arbitrary: ts ds rvs ds' evs)
  case Nil
  then show ?case by (simp add: inLeafOrder_def)
next
  case (Cons p ps)
  from Cons.prems(2,3) obtain t ts' rv1 ds1 evs1 rvs2 evs2 where
    ts: "ts = t # ts'" and f: "finish SGF p t ds = Inr (rv1, ds1, evs1)" and
    r: "finishEach SGF ps ts' ds1 = Inr (rvs2, ds', evs2)" and e: "evs = evs1 @ evs2" and
    rv: "rvs = rv1 # rvs2" and l: "length ts' = length ps"
    by (cases ts) (auto split: sum.splits)
  have pin: "p \<in> set (p # ps)" by simp
  from Cons.prems(1) [rule_format, OF pin f] obtain rvsA where
    a: "length (planLeafTypes p t) = length (planLeaves p)"
      "inLeafOrder SGF (planLeaves p) (planLeafTypes p t) ds ds1 evs1 rvsA"
      "\<not> returnsUsed p \<longrightarrow> rvalueValues rv1 = concat (map rvalueValues rvsA)"
    by (elim conjE exE)
  have rest: "\<forall>p \<in> set ps. \<forall>t ds rv ds' evs. finish SGF p t ds = Inr (rv, ds', evs) \<longrightarrow>
             length (planLeafTypes p t) = length (planLeaves p) \<and>
             (\<exists>rvs. inLeafOrder SGF (planLeaves p) (planLeafTypes p t) ds ds' evs rvs \<and>
                (\<not> returnsUsed p \<longrightarrow> rvalueValues rv = concat (map rvalueValues rvs)))"
  proof
    fix q assume "q \<in> set ps"
    then have "q \<in> set (p # ps)" by simp
    with Cons.prems(1) show "\<forall>t ds rv ds' evs. finish SGF q t ds = Inr (rv, ds', evs) \<longrightarrow>
             length (planLeafTypes q t) = length (planLeaves q) \<and>
             (\<exists>rvs. inLeafOrder SGF (planLeaves q) (planLeafTypes q t) ds ds' evs rvs \<and>
                (\<not> returnsUsed q \<longrightarrow> rvalueValues rv = concat (map rvalueValues rvs)))"
      by (rule bspec)
  qed
  from Cons.IH [OF rest r l] obtain rvsB where
    b: "length (planLeafTypesElements ps ts') = length (concat (map planLeaves ps))"
      "inLeafOrder SGF (concat (map planLeaves ps)) (planLeafTypesElements ps ts') ds1 ds' evs2 rvsB"
      "(\<forall>r \<in> set rvs2. \<not> isUsed r) \<longrightarrow>
         concat (map rvalueValues rvs2) = concat (map rvalueValues rvsB)"
    by (elim conjE exE)
  from inLeafOrder_append [OF a(2) b(2)] a(1)
  have app: "inLeafOrder SGF (planLeaves p @ concat (map planLeaves ps))
      (planLeafTypes p t @ planLeafTypesElements ps ts') ds ds' (evs1 @ evs2) (rvsA @ rvsB)"
    by simp
  have l1: "length (planLeafTypesElements (p # ps) ts) = length (concat (map planLeaves (p # ps)))"
    using a(1) b(1) ts by simp
  have l2: "inLeafOrder SGF (concat (map planLeaves (p # ps)))
      (planLeafTypesElements (p # ps) ts) ds ds' evs (rvsA @ rvsB)"
    using app ts e by simp
  have l3: "(\<forall>r \<in> set rvs. \<not> isUsed r) \<longrightarrow>
      concat (map rvalueValues rvs) = concat (map rvalueValues (rvsA @ rvsB))"
  proof
    assume u: "\<forall>r \<in> set rvs. \<not> isUsed r"
    with rv have u1: "\<not> isUsed rv1" and u2: "\<forall>r \<in> set rvs2. \<not> isUsed r" by simp_all
    from finish_returnsUsed [OF f] u1 have "\<not> returnsUsed p" by auto
    with a(3) b(3) u2 rv
    show "concat (map rvalueValues rvs) = concat (map rvalueValues (rvsA @ rvsB))"
      by simp
  qed
  from l1 l2 l3 show ?case by blast
qed

lemma finish_leaves:
  "finish SGF plan t ds = Inr (rv, ds', evs) \<Longrightarrow>
     length (planLeafTypes plan t) = length (planLeaves plan) \<and>
     (\<exists>rvs. inLeafOrder SGF (planLeaves plan) (planLeafTypes plan t) ds ds' evs rvs \<and>
        (\<not> returnsUsed plan \<longrightarrow> rvalueValues rv = concat (map rvalueValues rvs)))"
proof (induction plan arbitrary: t ds rv ds' evs)
  case (InPlaceInitializationResultPlan i)
  from inLeafOrder_leaf [OF this] show ?case by auto
next
  case (ScalarResultPlan temporary orig init rp)
  from inLeafOrder_leaf [OF this] show ?case by auto
next
  case (InitValueFromTemporaryResultPlan i sub tmp)
  from InitValueFromTemporaryResultPlan.prems show ?case
  proof (elim finish_InitValueFromTemporary_Inr)
    fix evs0
    assume f: "finish SGF sub t ds = Inr (RValueUsed, ds', evs0)"
      and e: "evs = evs0 @ [CopyOrInitValueInto i (getAddress tmp), FinishInitialization i]"
    from InitValueFromTemporaryResultPlan.IH [OF f] obtain rvs where
      l: "length (planLeafTypes sub t) = length (planLeaves sub)" and
      o: "inLeafOrder SGF (planLeaves sub) (planLeafTypes sub t) ds ds' evs0 rvs"
      by blast
    from inLeafOrder_snoc [OF o, of "[CopyOrInitValueInto i (getAddress tmp),
      FinishInitialization i]"] l e
    show ?thesis by auto
  qed
next
  case (InitValueFromRValueResultPlan i sub)
  from InitValueFromRValueResultPlan.prems show ?case
  proof (elim finish_InitValueFromRValue_Inr)
    fix subResult evs0 v
    assume f: "finish SGF sub t ds = Inr (subResult, ds', evs0)"
      and e: "evs = evs0 @ [CopyOrInitValueInto i v, FinishInitialization i]"
    from InitValueFromRValueResultPlan.IH [OF f] obtain rvs where
      l: "length (planLeafTypes sub t) = length (planLeaves sub)" and
      o: "inLeafOrder SGF (planLeaves sub) (planLeafTypes sub t) ds ds' evs0 rvs"
      by blast
    from inLeafOrder_snoc [OF o, of "[CopyOrInitValueInto i v, FinishInitialization i]"] l e
    show ?thesis by auto
  qed
next
  case (TupleRValueResultPlan ps)
  have ih: "\<forall>p \<in> set ps. \<forall>t ds rv ds' evs. finish SGF p t ds = Inr (rv, ds', evs) \<longrightarrow>
             length (planLeafTypes p t) = length (planLeaves p) \<and>
             (\<exists>rvs. inLeafOrder SGF (planLeaves p) (planLeafTypes p t) ds ds' evs rvs \<and>
                (\<not> returnsUsed p \<longrightarrow> rvalueValues rv = concat (map rvalueValues rvs)))"
    using TupleRValueResultPlan.IH by blast
  from TupleRValueResultPlan.prems show ?case
  proof (elim finish_TupleRValue_Inr)
    fix ts rvs
    assume h: "t = SubstTuple ts" "length ts = length ps"
      "finishEach SGF ps ts ds = Inr (rvs, ds', evs)" "\<forall>rv \<in> set rvs. \<not> isUsed rv"
      "rv = RValue t (concat (map rvalueValues rvs))"
    from finishEach_leaves [OF ih h(3,2)] h(4) obtain rvs' where
      "length (planLeafTypesElements ps ts) = length (concat (map planLeaves ps))"
      "inLeafOrder SGF (concat (map planLeaves ps)) (planLeafTypesElements ps ts) ds ds' evs rvs'"
      "concat (map rvalueValues rvs) = concat (map rvalueValues rvs')"
      by blast
    with h(1,5) show ?thesis by auto
  qed
next
  case (TupleInitializationResultPlan i eis ps)
  have ih: "\<forall>p \<in> set ps. \<forall>t ds rv ds' evs. finish SGF p t ds = Inr (rv, ds', evs) \<longrightarrow>
             length (planLeafTypes p t) = length (planLeaves p) \<and>
             (\<exists>rvs. inLeafOrder SGF (planLeaves p) (planLeafTypes p t) ds ds' evs rvs \<and>
                (\<not> returnsUsed p \<longrightarrow> rvalueValues rv = concat (map rvalueValues rvs)))"
    using TupleInitializationResultPlan.IH by blast
  from TupleInitializationResultPlan.prems show ?case
  proof (elim finish_TupleInitialization_Inr)
    fix ts rvs evs0
    assume h: "t = SubstTuple ts" "length ts = length ps"
      "finishEach SGF ps ts ds = Inr (rvs, ds', evs0)"
      "evs = evs0 @ [FinishInitialization i]"
    from finishEach_leaves [OF ih h(3,2)] obtain rvs' where
      l: "length (planLeafTypesElements ps ts) = length (concat (map planLeaves ps))" and
      o: "inLeafOrder SGF (concat (map planLeaves ps)) (planLeafTypesElements ps ts) ds ds' evs0 rvs'"
      by blast
    from inLeafOrder_snoc [OF o, of "[FinishInitialization i]"] l h(1,4)
    show ?thesis by auto
  qed
qed

lemma substLeaves_leafTypes:
  "mirrors orig t \<Longrightarrow> substLeaves t = concat (map substLeaves (leafTypes orig t))"
  "mirrorsElements os ts \<Longrightarrow>
     concat (map substLeaves ts) = concat (map substLeaves (leafTypesElements os ts))"
  by (induction orig t and os ts rule: mirrors_mirrorsElements.induct) simp_all

lemma concat_singletons:
  "\<forall>x \<in> set xs. f x = [x] \<Longrightarrow> concat (map f xs) = xs"
  by (induction xs) auto

lemma example_two_build:
  "build exampleSGF None exampleOrig exampleSubst exampleDirectBuilder =
     Inr (TupleRValueResultPlan
            [ScalarResultPlan None (OrigOpaque 0) None Thick,
             ScalarResultPlan None (OrigOpaque 1) None Thick],
          \<lparr>allResults = [], indirectResultAddrs = [], rep = Thick, nextTemporary = 0\<rparr>)"
  by (simp add: build.simps buildForTuple.simps buildElements.simps exampleSGF_def
        exampleOrig_def exampleSubst_def exampleDirectBuilder_def
        eltInitAt_def emitTemporary_def Let_def)

lemma example_two_finish:
  "finish exampleSGF
     (TupleRValueResultPlan
        [ScalarResultPlan None (OrigOpaque 0) None Thick,
         ScalarResultPlan None (OrigOpaque 1) None Thick])
     exampleSubst exampleTwoDirect =
   Inr (RValue exampleSubst [Value 7 (SILType 5 Object), Value 8 (SILType 6 Object)],
        [],
        [TakeDirectResult (Value 7 (SILType 5 Object)),
         EmitOrigToSubstValue (Value 7 (SILType 5 Object)) (OrigOpaque 0) (SubstScalar 1) None
           (Managed (Value 7 (SILType 5 Object))),
         TakeDirectResult (Value 8 (SILType 6 Object)),
         EmitOrigToSubstValue (Value 8 (SILType 6 Object)) (OrigOpaque 1) (SubstScalar 2) None
           (Managed (Value 8 (SILType 6 Object)))])"
  by (simp add: exampleSGF_def exampleSubst_def exampleTwoDirect_def ScalarResultPlan_finish_def
        ScalarResultPlan_claim_def ScalarResultPlan_store_def Let_def)

lemma substLeaves_scalar: "x \<in> set (substLeaves t) \<Longrightarrow> substLeaves x = [x]"
  by (induction t) auto

lemma concat_substLeaves_iff:
  "concat (map substLeaves ls) = ls \<longleftrightarrow> (\<forall>t \<in> set ls. substLeaves t = [t])"
proof
  assume e: "concat (map substLeaves ls) = ls"
  show "\<forall>t \<in> set ls. substLeaves t = [t]"
  proof
    fix t assume "t \<in> set ls"
    with e have "t \<in> set (concat (map substLeaves ls))" by simp
    then obtain u where "t \<in> set (substLeaves u)" by auto
    then show "substLeaves t = [t]" by (rule substLeaves_scalar)
  qed
next
  assume "\<forall>t \<in> set ls. substLeaves t = [t]"
  then show "concat (map substLeaves ls) = ls" by (rule concat_singletons)
qed

lemma directTaken_leafOnly: "directTaken (filter leafOnly events) = directTaken events"
proof (induction events)
  case Nil
  show ?case by simp
next
  case (Cons e es)
  then show ?case by (cases e) (simp_all add: directTaken_def)
qed

lemma build_leaf_holds:
  assumes "build SGF d (OrigOpaque n) t b = Inr (node, b')"
  shows "planLeaves node = [node] \<and> leafFor node (OrigOpaque n) \<and>
         leafInit node = (case d of None \<Rightarrow> [] | Some i \<Rightarrow> [i])"
  using assms
proof (cases rule: build_leaf_Inr)
  case (1 result rest a i)
  then show ?thesis by simp
next
  case (2 result rest)
  then show ?thesis by (cases d) simp_all
next
  case (3 result rest)
  then show ?thesis by (cases d) simp_all
qed

text \<open>
  C7, as the code has it.  The flattening of the substituted type need not be
  that of the abstraction pattern: under an opaque pattern a substituted tuple
  is one leaf.  What holds of a call that builds and finishes, when the
  substituted type has a tuple of the same length wherever the pattern has one:

  \<^item> the leaf nodes of the plan are, left to right, those built for the leaves
    of the pattern, each finished with the substituted type at its position;
    the flattening of the substituted type is the flattening of these types,
    and is the same list exactly when none of them is a tuple;
  \<^item> the leaf nodes stand for the descriptors taken, one by one in order, and
    the addresses appended while building are those of the leaf nodes, in that
    order;
  \<^item> finishing the plan is finishing its leaf nodes one after the other in
    that order, each on the direct results the one before left: this returns
    the cursor the plan returns, the events of the leaves, block by block in
    that order, are among the events of the plan, which has no other event
    that only a leaf emits, and a plan built for no destination returns the
    values of the leaves in that order; the values taken are the front of the
    direct results;
  \<^item> at every tuple, the elements are built pairwise by index, front to back,
    each on the state the one before left: with no destination for any of
    them, or element \<open>i\<close> for the \<open>i\<close>-th sub-destination of a destination that
    splits; a leaf built for a destination holds that destination, and one
    built for none holds none; and the two tuple nodes finish their element
    plans pairwise by index, front to back, each on the direct results the one
    before left.
\<close>

theorem C7_order_follows_abstraction_pattern:
  assumes "mirrors orig subst"
    and "build SGF init orig subst b = Inr (plan, b')"
    and "finish SGF plan subst directResults = Inr (rv, directResults', events)"
  shows "list_all2 leafFor (planLeaves plan) (leaves orig) \<and>
         planLeafTypes plan subst = leafTypes orig subst \<and>
         substLeaves subst = concat (map substLeaves (leafTypes orig subst)) \<and>
         (substLeaves subst = leafTypes orig subst \<longleftrightarrow>
            (\<forall>t \<in> set (leafTypes orig subst). substLeaves t = [t])) \<and>
         map leafIsIndirect (planLeaves plan) =
           map isSILIndirect (take (length (leaves orig)) (allResults b)) \<and>
         indirectResultAddrs b' =
           indirectResultAddrs b @ concat (map (leafAddress SGF) (planLeaves plan)) \<and>
         (\<exists>rvs events'.
            finishEach SGF (planLeaves plan) (leafTypes orig subst) directResults =
              Inr (rvs, directResults', events') \<and>
            directTaken events' = directTaken events \<and>
            subseq events' events \<and>
            filter leafOnly events = filter leafOnly events' \<and>
            (init = None \<longrightarrow> rvalueValues rv = concat (map rvalueValues rvs))) \<and>
         directTaken events = take (directCount plan) directResults \<and>
         (\<forall>os ts b0 node b1.
            length os = length ts \<longrightarrow>
            (build SGF None (OrigTuple os) (SubstTuple ts) b0 = Inr (node, b1) \<longleftrightarrow>
             (\<exists>plans. node = TupleRValueResultPlan plans \<and>
                buildEach SGF (replicate (length ts) None) os ts b0 = Inr (plans, b1)))) \<and>
         (\<forall>d os ts b0 node b1.
            length os = length ts \<longrightarrow> canSplitIntoTupleElements SGF d \<longrightarrow>
            (build SGF (Some d) (OrigTuple os) (SubstTuple ts) b0 = Inr (node, b1) \<longleftrightarrow>
             (\<exists>plans. node = TupleInitializationResultPlan d
                                (map (TupleElementInit d) [0..<length ts]) plans \<and>
                buildEach SGF (map (\<lambda>i. Some (TupleElementInit d i)) [0..<length ts]) os ts b0 =
                  Inr (plans, b1)))) \<and>
         (\<forall>plans t ds nodeRV ds1 evs.
            finish SGF (TupleRValueResultPlan plans) t ds = Inr (nodeRV, ds1, evs) \<longleftrightarrow>
            (\<exists>ts rvs. t = SubstTuple ts \<and> length ts = length plans \<and>
               finishEach SGF plans ts ds = Inr (rvs, ds1, evs) \<and>
               (\<forall>r \<in> set rvs. \<not> isUsed r) \<and>
               nodeRV = RValue t (concat (map rvalueValues rvs)))) \<and>
         (\<forall>tupleInit eltInits plans t ds nodeRV ds1 evs.
            finish SGF (TupleInitializationResultPlan tupleInit eltInits plans) t ds =
              Inr (nodeRV, ds1, evs) \<longleftrightarrow>
            (\<exists>ts rvs evs0. t = SubstTuple ts \<and> length ts = length plans \<and>
               finishEach SGF plans ts ds = Inr (rvs, ds1, evs0) \<and>
               (\<forall>r \<in> set rvs. isUsed r) \<and>
               nodeRV = RValueUsed \<and> evs = evs0 @ [FinishInitialization tupleInit])) \<and>
         (\<forall>d n t b0 node b1.
            build SGF d (OrigOpaque n) t b0 = Inr (node, b1) \<longrightarrow>
            planLeaves node = [node] \<and> leafFor node (OrigOpaque n) \<and>
            leafInit node = (case d of None \<Rightarrow> [] | Some i \<Rightarrow> [i]))"
proof -
  note bl = build_leaves(1) [OF assms(2,1)]
  note bb = build_balance [OF assms(1,2)]
  have 1: "substLeaves subst = concat (map substLeaves (leafTypes orig subst))"
    using assms(1) by (rule substLeaves_leafTypes(1))
  have 2: "substLeaves subst = leafTypes orig subst \<longleftrightarrow>
            (\<forall>t \<in> set (leafTypes orig subst). substLeaves t = [t])"
    using concat_substLeaves_iff [of "leafTypes orig subst"] 1 by simp
  have 3: "indirectResultAddrs b' =
           indirectResultAddrs b @ concat (map (leafAddress SGF) (planLeaves plan))"
    using build_built(1) [OF assms(2)] by (simp add: built_def)
  from finish_leaves [OF assms(3)] bl obtain rvs where
    o: "inLeafOrder SGF (planLeaves plan) (leafTypes orig subst) directResults directResults'
          events rvs" and
    v: "\<not> returnsUsed plan \<longrightarrow> rvalueValues rv = concat (map rvalueValues rvs)"
    by auto
  from build_without_destination(1) [OF assms(2)] v
  have v': "init = None \<longrightarrow> rvalueValues rv = concat (map rvalueValues rvs)" by blast
  from o obtain events' where
    o': "finishEach SGF (planLeaves plan) (leafTypes orig subst) directResults =
           Inr (rvs, directResults', events')"
      "subseq events' events" "filter leafOnly events = filter leafOnly events'"
    unfolding inLeafOrder_def by blast
  from o'(3) directTaken_leafOnly [of events] directTaken_leafOnly [of events']
  have dt: "directTaken events' = directTaken events" by simp
  from o' dt v' have 4: "\<exists>rvs events'.
            finishEach SGF (planLeaves plan) (leafTypes orig subst) directResults =
              Inr (rvs, directResults', events') \<and>
            directTaken events' = directTaken events \<and>
            subseq events' events \<and>
            filter leafOnly events = filter leafOnly events' \<and>
            (init = None \<longrightarrow> rvalueValues rv = concat (map rvalueValues rvs))"
    by blast
  from finish_cursor [OF assms(3)]
  have 5: "directTaken events = take (directCount plan) directResults"
    by (metis append_eq_conv_conj)
  have 6: "\<forall>os ts b0 node b1.
            length os = length ts \<longrightarrow>
            (build SGF None (OrigTuple os) (SubstTuple ts) b0 = Inr (node, b1) \<longleftrightarrow>
             (\<exists>plans. node = TupleRValueResultPlan plans \<and>
                buildEach SGF (replicate (length ts) None) os ts b0 = Inr (plans, b1)))"
    by (intro allI impI build_tuple_without_destination)
  have 7: "\<forall>d os ts b0 node b1.
            length os = length ts \<longrightarrow> canSplitIntoTupleElements SGF d \<longrightarrow>
            (build SGF (Some d) (OrigTuple os) (SubstTuple ts) b0 = Inr (node, b1) \<longleftrightarrow>
             (\<exists>plans. node = TupleInitializationResultPlan d
                                (map (TupleElementInit d) [0..<length ts]) plans \<and>
                buildEach SGF (map (\<lambda>i. Some (TupleElementInit d i)) [0..<length ts]) os ts b0 =
                  Inr (plans, b1)))"
    by (intro allI impI build_tuple_split_destination)
  have 8: "\<forall>plans t ds nodeRV ds1 evs.
            finish SGF (TupleRValueResultPlan plans) t ds = Inr (nodeRV, ds1, evs) \<longleftrightarrow>
            (\<exists>ts rvs. t = SubstTuple ts \<and> length ts = length plans \<and>
               finishEach SGF plans ts ds = Inr (rvs, ds1, evs) \<and>
               (\<forall>r \<in> set rvs. \<not> isUsed r) \<and>
               nodeRV = RValue t (concat (map rvalueValues rvs)))"
    by (intro allI finish_TupleRValue_iff)
  have 9: "\<forall>tupleInit eltInits plans t ds nodeRV ds1 evs.
            finish SGF (TupleInitializationResultPlan tupleInit eltInits plans) t ds =
              Inr (nodeRV, ds1, evs) \<longleftrightarrow>
            (\<exists>ts rvs evs0. t = SubstTuple ts \<and> length ts = length plans \<and>
               finishEach SGF plans ts ds = Inr (rvs, ds1, evs0) \<and>
               (\<forall>r \<in> set rvs. isUsed r) \<and>
               nodeRV = RValueUsed \<and> evs = evs0 @ [FinishInitialization tupleInit])"
    by (intro allI finish_TupleInitialization_iff)
  have 10: "\<forall>d n t b0 node b1.
            build SGF d (OrigOpaque n) t b0 = Inr (node, b1) \<longrightarrow>
            planLeaves node = [node] \<and> leafFor node (OrigOpaque n) \<and>
            leafInit node = (case d of None \<Rightarrow> [] | Some i \<Rightarrow> [i])"
    by (intro allI impI build_leaf_holds)
  from bl bb(4) 1 2 3 4 5 6 7 8 9 10 show ?thesis by (intro conjI) simp_all
qed

lemma example_buildEach:
  "buildEach exampleSGF
     (map (\<lambda>i. Some (TupleElementInit (CallerInit 0) i)) [0..<2])
     [OrigOpaque 0, OrigOpaque 1] [SubstScalar 1, SubstScalar 2] exampleBuilder =
   Inr ([InPlaceInitializationResultPlan (TupleElementInit (CallerInit 0) 0),
         ScalarResultPlan None (OrigOpaque 1) (Some (TupleElementInit (CallerInit 0) 1)) Thick],
        \<lparr>allResults = [], indirectResultAddrs = [Value 10 (SILType 1 Address)], rep = Thick,
           nextTemporary = 0\<rparr>)"
  by (simp add: build.simps exampleSGF_def exampleBuilder_def upt_rec numeral_2_eq_2
        getAddressForInPlaceInitialization_def emitTemporary_def Let_def)

theorem C7_witness:
  "mirrors exampleOrig exampleSubst \<and>
   build exampleSGF None exampleOrig exampleSubst exampleDirectBuilder =
     Inr (TupleRValueResultPlan
            [ScalarResultPlan None (OrigOpaque 0) None Thick,
             ScalarResultPlan None (OrigOpaque 1) None Thick],
          \<lparr>allResults = [], indirectResultAddrs = [], rep = Thick, nextTemporary = 0\<rparr>) \<and>
   (\<exists>events.
      finish exampleSGF
        (TupleRValueResultPlan
           [ScalarResultPlan None (OrigOpaque 0) None Thick,
            ScalarResultPlan None (OrigOpaque 1) None Thick])
        exampleSubst exampleTwoDirect =
      Inr (RValue exampleSubst [Value 7 (SILType 5 Object), Value 8 (SILType 6 Object)], [],
           events) \<and>
      (\<exists>rvs events'.
         finishEach exampleSGF
           [ScalarResultPlan None (OrigOpaque 0) None Thick,
            ScalarResultPlan None (OrigOpaque 1) None Thick]
           [SubstScalar 1, SubstScalar 2] exampleTwoDirect = Inr (rvs, [], events') \<and>
         subseq events' events \<and>
         filter leafOnly events = filter leafOnly events' \<and>
         [Value 7 (SILType 5 Object), Value 8 (SILType 6 Object)] =
           concat (map rvalueValues rvs))) \<and>
   substLeaves exampleSubst = leafTypes exampleOrig exampleSubst \<and>
   length [OrigOpaque 0, OrigOpaque 1] = length [SubstScalar 1, SubstScalar 2] \<and>
   canSplitIntoTupleElements exampleSGF (CallerInit 0) \<and>
   build exampleSGF (Some (CallerInit 0)) (OrigTuple [OrigOpaque 0, OrigOpaque 1])
     (SubstTuple [SubstScalar 1, SubstScalar 2]) exampleBuilder =
     Inr (TupleInitializationResultPlan (CallerInit 0)
            (map (TupleElementInit (CallerInit 0)) [0..<2])
            [InPlaceInitializationResultPlan (TupleElementInit (CallerInit 0) 0),
             ScalarResultPlan None (OrigOpaque 1) (Some (TupleElementInit (CallerInit 0) 1)) Thick],
          \<lparr>allResults = [], indirectResultAddrs = [Value 10 (SILType 1 Address)], rep = Thick,
             nextTemporary = 0\<rparr>) \<and>
   map leafInit
     [InPlaceInitializationResultPlan (TupleElementInit (CallerInit 0) 0),
      ScalarResultPlan None (OrigOpaque 1) (Some (TupleElementInit (CallerInit 0) 1)) Thick] =
     [[TupleElementInit (CallerInit 0) 0], [TupleElementInit (CallerInit 0) 1]]"
proof -
  note t = C7_order_follows_abstraction_pattern [OF example_mirrors example_two_build
    example_two_finish]
  have lt: "leafTypes exampleOrig exampleSubst = [SubstScalar 1, SubstScalar 2]"
    by (simp add: exampleOrig_def exampleSubst_def)
  have pl: "planLeaves (TupleRValueResultPlan
            [ScalarResultPlan None (OrigOpaque 0) None Thick,
             ScalarResultPlan None (OrigOpaque 1) None Thick]) =
      [ScalarResultPlan None (OrigOpaque 0) None Thick,
       ScalarResultPlan None (OrigOpaque 1) None Thick]"
    by simp
  from t [THEN conjunct2, THEN conjunct2, THEN conjunct2, THEN conjunct2, THEN conjunct2,
          THEN conjunct2, THEN conjunct1]
  have a: "\<exists>rvs events'.
         finishEach exampleSGF
           [ScalarResultPlan None (OrigOpaque 0) None Thick,
            ScalarResultPlan None (OrigOpaque 1) None Thick]
           [SubstScalar 1, SubstScalar 2] exampleTwoDirect = Inr (rvs, [], events') \<and>
         directTaken events' = directTaken [TakeDirectResult (Value 7 (SILType 5 Object)),
           EmitOrigToSubstValue (Value 7 (SILType 5 Object)) (OrigOpaque 0) (SubstScalar 1) None
             (Managed (Value 7 (SILType 5 Object))),
           TakeDirectResult (Value 8 (SILType 6 Object)),
           EmitOrigToSubstValue (Value 8 (SILType 6 Object)) (OrigOpaque 1) (SubstScalar 2) None
             (Managed (Value 8 (SILType 6 Object)))] \<and>
         subseq events' [TakeDirectResult (Value 7 (SILType 5 Object)),
           EmitOrigToSubstValue (Value 7 (SILType 5 Object)) (OrigOpaque 0) (SubstScalar 1) None
             (Managed (Value 7 (SILType 5 Object))),
           TakeDirectResult (Value 8 (SILType 6 Object)),
           EmitOrigToSubstValue (Value 8 (SILType 6 Object)) (OrigOpaque 1) (SubstScalar 2) None
             (Managed (Value 8 (SILType 6 Object)))] \<and>
         filter leafOnly [TakeDirectResult (Value 7 (SILType 5 Object)),
           EmitOrigToSubstValue (Value 7 (SILType 5 Object)) (OrigOpaque 0) (SubstScalar 1) None
             (Managed (Value 7 (SILType 5 Object))),
           TakeDirectResult (Value 8 (SILType 6 Object)),
           EmitOrigToSubstValue (Value 8 (SILType 6 Object)) (OrigOpaque 1) (SubstScalar 2) None
             (Managed (Value 8 (SILType 6 Object)))] = filter leafOnly events' \<and>
         [Value 7 (SILType 5 Object), Value 8 (SILType 6 Object)] =
           concat (map rvalueValues rvs)"
    by (simp only: lt pl rvalueValues.simps simp_thms)
  from t [THEN conjunct2, THEN conjunct2, THEN conjunct2, THEN conjunct1]
  have b: "substLeaves exampleSubst = leafTypes exampleOrig exampleSubst"
    by (simp add: exampleOrig_def exampleSubst_def)
  have s: "canSplitIntoTupleElements exampleSGF (CallerInit 0)"
    by (simp add: exampleSGF_def)
  have len: "length [OrigOpaque 0, OrigOpaque 1] = length [SubstScalar 1, SubstScalar 2]"
    by simp
  note l2 = t [THEN conjunct2, THEN conjunct2, THEN conjunct2, THEN conjunct2, THEN conjunct2,
          THEN conjunct2, THEN conjunct2, THEN conjunct2, THEN conjunct2, THEN conjunct1,
          rule_format, OF len s]
  have "length [SubstScalar 1, SubstScalar 2] = 2" by simp
  then have n: "[0..<length [SubstScalar 1, SubstScalar 2]] = [0..<2]" by (rule arg_cong)
  have "\<exists>plans. TupleInitializationResultPlan (CallerInit 0)
            (map (TupleElementInit (CallerInit 0)) [0..<2])
            [InPlaceInitializationResultPlan (TupleElementInit (CallerInit 0) 0),
             ScalarResultPlan None (OrigOpaque 1) (Some (TupleElementInit (CallerInit 0) 1)) Thick] =
          TupleInitializationResultPlan (CallerInit 0)
            (map (TupleElementInit (CallerInit 0))
               [0..<length [SubstScalar 1, SubstScalar 2]]) plans \<and>
        buildEach exampleSGF
          (map (\<lambda>i. Some (TupleElementInit (CallerInit 0) i))
             [0..<length [SubstScalar 1, SubstScalar 2]])
          [OrigOpaque 0, OrigOpaque 1] [SubstScalar 1, SubstScalar 2] exampleBuilder =
        Inr (plans, \<lparr>allResults = [], indirectResultAddrs = [Value 10 (SILType 1 Address)],
                      rep = Thick, nextTemporary = 0\<rparr>)"
    unfolding n by (intro exI conjI) (rule refl, rule example_buildEach)
  from l2 [THEN iffD2, OF this]
  have c: "build exampleSGF (Some (CallerInit 0)) (OrigTuple [OrigOpaque 0, OrigOpaque 1])
     (SubstTuple [SubstScalar 1, SubstScalar 2]) exampleBuilder =
     Inr (TupleInitializationResultPlan (CallerInit 0)
            (map (TupleElementInit (CallerInit 0)) [0..<2])
            [InPlaceInitializationResultPlan (TupleElementInit (CallerInit 0) 0),
             ScalarResultPlan None (OrigOpaque 1) (Some (TupleElementInit (CallerInit 0) 1)) Thick],
          \<lparr>allResults = [], indirectResultAddrs = [Value 10 (SILType 1 Address)], rep = Thick,
             nextTemporary = 0\<rparr>)" .
  have d: "map leafInit
     [InPlaceInitializationResultPlan (TupleElementInit (CallerInit 0) 0),
      ScalarResultPlan None (OrigOpaque 1) (Some (TupleElementInit (CallerInit 0) 1)) Thick] =
     [[TupleElementInit (CallerInit 0) 0], [TupleElementInit (CallerInit 0) 1]]"
    by simp
  from example_mirrors example_two_build example_two_finish a b len s c d show ?thesis
    by blast
qed

theorem C7_counterexample:
  "mirrors (OrigOpaque 0) exampleSubst \<and>
   build exampleSGF None (OrigOpaque 0) exampleSubst exampleBuilder =
     Inr (ScalarResultPlan (Some (TemporaryInitialization 0 (SILType 1 Object))) (OrigOpaque 0)
            None Thick,
          \<lparr>allResults = tl (allResults exampleBuilder),
             indirectResultAddrs = [AllocStack 0 (SILType 1 Object)], rep = Thick,
             nextTemporary = 1\<rparr>) \<and>
   substLeaves exampleSubst = [SubstScalar 1, SubstScalar 2] \<and>
   leaves (OrigOpaque 0) = [OrigOpaque 0] \<and>
   length (substLeaves exampleSubst) \<noteq> length (leaves (OrigOpaque 0))"
  by (simp add: exampleSubst_def build.simps Let_def emitTemporary_def exampleSGF_def
        exampleBuilder_def)


subsection \<open>Exactly-once deposit\<close>



lemma oneValueEach_simps [simp]:
  "oneValueEach [] vs = []"
  "oneValueEach ts [] = []"
  "oneValueEach (t # ts) (v # vs) = RValue t [v] # oneValueEach ts vs"
  by (simp_all add: oneValueEach_def)











end
